theory Spec2Isabelle
  imports Main
begin

section \<open>Strings as the program sees them\<close>

text \<open>
  Program strings are modelled as \<^typ>\<open>string\<close>; a character stands for one code unit
  in the range 0..255. The empty string is the only falsy string.
\<close>

definition isWhitespaceChar :: "char \<Rightarrow> bool" where
  \<comment> \<open>the regular-expression class \<open>\s\<close>, restricted to code units below 256\<close>
  "isWhitespaceChar c =
     (c = CHR 0x09 \<or> c = CHR 0x0A \<or> c = CHR 0x0B \<or> c = CHR 0x0C \<or> c = CHR 0x0D
      \<or> c = CHR 0x20 \<or> c = CHR 0xA0)"

definition trimJs :: "string \<Rightarrow> string" where
  \<comment> \<open>\<open>String.prototype.trim\<close>\<close>
  "trimJs s = rev (dropWhile isWhitespaceChar (rev (dropWhile isWhitespaceChar s)))"

definition toLowerChar :: "char \<Rightarrow> char" where
  "toLowerChar c =
     (let n = of_char c :: nat in
      if (65 \<le> n \<and> n \<le> 90) \<or> (192 \<le> n \<and> n \<le> 222 \<and> n \<noteq> 215)
      then char_of (n + 32) else c)"

definition toLowerCase :: "string \<Rightarrow> string" where
  "toLowerCase s = map toLowerChar s"

section \<open>Role resolver (structure\_traversal.ts)\<close>

definition explicitHeadingRe :: "string \<Rightarrow> bool" where
  \<comment> \<open>the literal \<open>/^H\\d+$/\<close> as written in the source: the letter H, one backslash,
      then one or more letters d\<close>
  "explicitHeadingRe s =
     (case s of
        c1 # c2 # ds \<Rightarrow> c1 = CHR ''H'' \<and> c2 = CHR 0x5C \<and> ds \<noteq> [] \<and> list_all (\<lambda>c. c = CHR ''d'') ds
      | _ \<Rightarrow> False)"

definition standardTypes :: "string list" where
  "standardTypes =
    [''Document'', ''Part'', ''Sect'', ''Div'', ''Art'', ''BlockQuote'', ''Caption'',
     ''TOC'', ''TOCI'', ''Index'', ''NonStruct'', ''Private'', ''Aside'',
     ''Title'', ''FENote'', ''DocumentFragment'',
     ''P'', ''H'', ''H1'', ''H2'', ''H3'', ''H4'', ''H5'', ''H6'',
     ''L'', ''LI'', ''Lbl'', ''LBody'',
     ''Table'', ''TR'', ''TH'', ''TD'', ''THead'', ''TBody'', ''TFoot'',
     ''Span'', ''Quote'', ''Note'', ''Reference'', ''BibEntry'', ''Code'', ''Link'',
     ''Annot'', ''Ruby'', ''RB'', ''RT'', ''RP'', ''Warichu'', ''WT'', ''WP'',
     ''Em'', ''Strong'', ''Sub'', ''Sup'',
     ''Figure'', ''Formula'', ''Form'',
     ''Artifact'']"

definition isStandardType :: "string \<Rightarrow> bool" where
  "isStandardType role =
     (if role = ''Hn'' then True
      else if explicitHeadingRe role then True
      else role \<in> set standardTypes)"

definition isPdfStandardNamespace :: "string \<Rightarrow> bool" where
  "isPdfStandardNamespace namespaceURI =
     (if namespaceURI = [] then True
      else let normalized = toLowerCase (trimJs namespaceURI) in
        if normalized = [] then True
        else if normalized = ''http://iso.org/pdf2/ssn'' then True
        else if normalized = ''http://iso.org/pdf2/ssn#'' then True
        else if normalized = ''http://iso.org/pdf2/ssn/1.0'' then True
        else if normalized = ''http://iso.org/pdf/ssn'' then True
        else if normalized = ''http://iso.org/pdf/ssn/1.0'' then True
        else False)"

type_synonym roleMap = "(string \<times> string) list"

text \<open>
  The role map is a \<open>Map<string, string>\<close>; it is modelled by its entries, looked up with
  \<^const>\<open>map_of\<close>. The loop of \<open>resolveRole\<close> carries the current name and the set of
  names seen so far; the model returns both at loop exit, together with a count of the
  replacements \<open>current = next\<close> performed (the count is not a program variable).
\<close>

function resolveRoleLoop :: "roleMap \<Rightarrow> string \<Rightarrow> string list \<Rightarrow> nat \<Rightarrow> string \<times> string list \<times> nat" where
  "resolveRoleLoop rm current seen n =
     (case map_of rm current of
        None \<Rightarrow> (current, seen, n)
      | Some next \<Rightarrow>
          if current \<in> set seen then (current, seen, n)
          else if next = [] then (current, current # seen, n)
          else if isStandardType next then (next, current # seen, Suc n)
          else resolveRoleLoop rm next (current # seen) (Suc n))"
  by pat_completeness auto
termination
proof (relation "measure (\<lambda>(rm, current, seen, n). card (dom (map_of rm) - set seen))")
  show "wf (measure (\<lambda>(rm, current, seen, n). card (dom (map_of rm) - set seen)))"
    by simp
next
  fix rm :: roleMap and current :: string and seen :: "string list" and n :: nat and x2 :: string
  assume look: "map_of rm current = Some x2" and fresh: "current \<notin> set seen"
  have fin: "finite (dom (map_of rm) - set seen)"
    by (simp add: finite_dom_map_of)
  have mem: "current \<in> dom (map_of rm) - set seen"
    using look fresh by auto
  have "dom (map_of rm) - set (current # seen) = (dom (map_of rm) - set seen) - {current}"
    by auto
  then have "card (dom (map_of rm) - set (current # seen)) < card (dom (map_of rm) - set seen)"
    using card_Diff1_less [OF fin mem] by simp
  then show "((rm, x2, current # seen, Suc n), (rm, current, seen, n))
      \<in> measure (\<lambda>(rm, current, seen, n). card (dom (map_of rm) - set seen))"
    by simp
qed

definition resolveRole :: "string \<Rightarrow> roleMap option \<Rightarrow> string \<Rightarrow> string" where
  "resolveRole role roleMap namespaceURI =
     (if role = [] then role
      else if isPdfStandardNamespace namespaceURI \<and> isStandardType role then role
      else case roleMap of
             None \<Rightarrow> role
           | Some rm \<Rightarrow> fst (resolveRoleLoop rm role [] 0))"

definition resolveRoleSteps :: "string \<Rightarrow> roleMap option \<Rightarrow> string \<Rightarrow> nat" where
  \<comment> \<open>the number of replacements one call of \<open>resolveRole\<close> performs\<close>
  "resolveRoleSteps role roleMap namespaceURI =
     (if role = [] then 0
      else if isPdfStandardNamespace namespaceURI \<and> isStandardType role then 0
      else case roleMap of
             None \<Rightarrow> 0
           | Some rm \<Rightarrow> snd (snd (resolveRoleLoop rm role [] 0)))"


section \<open>PDF objects and JavaScript conversions\<close>

text \<open>
  The objects handed over by the object-model provider. A \<open>Dict\<close> is modelled by its
  entries (keys distinct), \<open>Dict.get\<close> by \<^const>\<open>map_of\<close>; a missing key is
  \<open>undefined\<close> (\<^const>\<open>None\<close>). Numbers are modelled as integers (PDF integer objects):
  \<open>Math.round\<close> is then the identity and \<open>String(n)\<close> is the decimal numeral.
  An indirect reference \<open>PRef num gen\<close> is only read with \<open>getRaw\<close>.
\<close>

datatype pdfObj =
    PNull
  | PBool bool
  | PNum int
  | PName string
  | PStr string
  | PRef nat nat
  | PArr "pdfObj list"
  | PDict "(string \<times> pdfObj) list"

type_synonym dict = "(string \<times> pdfObj) list"

definition dictGet :: "dict \<Rightarrow> string \<Rightarrow> pdfObj option" where
  "dictGet d k = map_of d k"

definition dictGetKeys :: "dict \<Rightarrow> string list" where
  "dictGetKeys d = map fst d"

fun truthy :: "pdfObj option \<Rightarrow> bool" where
  "truthy None = False"
| "truthy (Some PNull) = False"
| "truthy (Some (PBool b)) = b"
| "truthy (Some (PNum n)) = (n \<noteq> 0)"
| "truthy (Some (PStr s)) = (s \<noteq> [])"
| "truthy (Some (PName n)) = True"
| "truthy (Some (PRef n g)) = True"
| "truthy (Some (PArr xs)) = True"
| "truthy (Some (PDict d)) = True"

fun nameOf :: "pdfObj option \<Rightarrow> string option" where
  \<comment> \<open>\<open>value?.name\<close>: only a \<open>Name\<close> object has the property\<close>
  "nameOf (Some (PName n)) = Some n"
| "nameOf _ = None"

fun truthyName :: "string option \<Rightarrow> bool" where
  "truthyName None = False"
| "truthyName (Some s) = (s \<noteq> [])"

definition digitChar :: "nat \<Rightarrow> char" where
  "digitChar d = char_of (48 + d)"

fun showNat :: "nat \<Rightarrow> string" where
  "showNat n = (if n < 10 then [digitChar n] else showNat (n div 10) @ [digitChar (n mod 10)])"

declare showNat.simps [simp del]

definition showInt :: "int \<Rightarrow> string" where
  "showInt i = (if i < 0 then CHR ''-'' # showNat (nat (- i)) else showNat (nat i))"

fun showNumber :: "int option \<Rightarrow> string" where
  \<comment> \<open>a number that may be \<open>NaN\<close>\<close>
  "showNumber None = ''NaN''"
| "showNumber (Some i) = showInt i"

fun intersperseStr :: "string \<Rightarrow> string list \<Rightarrow> string" where
  \<comment> \<open>\<open>Array.prototype.join\<close> on strings\<close>
  "intersperseStr sep [] = []"
| "intersperseStr sep [x] = x"
| "intersperseStr sep (x # y # ys) = x @ sep @ intersperseStr sep (y # ys)"

fun jsString :: "pdfObj \<Rightarrow> string"
  and jsJoinElems :: "pdfObj list \<Rightarrow> string list" where
  \<comment> \<open>\<open>String(value)\<close>; inside an array \<open>null\<close> joins as the empty string\<close>
  "jsString PNull = ''null''"
| "jsString (PBool b) = (if b then ''true'' else ''false'')"
| "jsString (PNum n) = showInt n"
| "jsString (PName n) = ''[object Object]''"
| "jsString (PStr s) = s"
| "jsString (PRef n g) = showNat n @ ''R'' @ (if g = 0 then [] else showNat g)"
| "jsString (PArr xs) = intersperseStr '','' (jsJoinElems xs)"
| "jsString (PDict d) = ''[object Object]''"
| "jsJoinElems [] = []"
| "jsJoinElems (x # xs) = (case x of PNull \<Rightarrow> [] | _ \<Rightarrow> jsString x) # jsJoinElems xs"

fun toNumber :: "pdfObj \<Rightarrow> int option" where
  \<comment> \<open>numeric coercion of an operand; \<^const>\<open>None\<close> is \<open>NaN\<close>. Strings, names, arrays and
      dictionaries are taken to \<open>NaN\<close>.\<close>
  "toNumber (PNum n) = Some n"
| "toNumber PNull = Some 0"
| "toNumber (PBool b) = Some (if b then 1 else 0)"
| "toNumber _ = None"

fun numSub :: "int option \<Rightarrow> int option \<Rightarrow> int option" where
  "numSub (Some a) (Some b) = Some (a - b)"
| "numSub _ _ = None"

fun numMul :: "int option \<Rightarrow> int option \<Rightarrow> int option" where
  "numMul (Some a) (Some b) = Some (a * b)"
| "numMul _ _ = None"

definition startsWith :: "string \<Rightarrow> string \<Rightarrow> bool" where
  "startsWith s p = (take (length p) s = p)"

section \<open>Insertion-ordered maps\<close>

text \<open>
  A \<open>Map<string, string>\<close> iterates in insertion order, and \<open>set\<close> on a key already present
  replaces the value where the key stands.
\<close>

type_synonym jsMap = "(string \<times> string) list"

fun mapSet :: "string \<Rightarrow> string \<Rightarrow> jsMap \<Rightarrow> jsMap" where
  "mapSet k v [] = [(k, v)]"
| "mapSet k v ((k', v') # m) = (if k' = k then (k, v) # m else (k', v') # mapSet k v m)"

text \<open>
  A guarded write \<open>(c, k, v)\<close> stands for the statement \<open>if (c) map.set(k, v);\<close>. A handler
  is the list of its guarded writes in source order, run one after the other on the same map.
\<close>

type_synonym guardedWrite = "bool \<times> string \<times> string"

definition applyWrite :: "guardedWrite \<Rightarrow> jsMap \<Rightarrow> jsMap" where
  "applyWrite w m = (case w of (c, k, v) \<Rightarrow> if c then mapSet k v m else m)"

definition runWrites :: "guardedWrite list \<Rightarrow> jsMap \<Rightarrow> jsMap" where
  "runWrites ws m = fold applyWrite ws m"

section \<open>Attribute cascade (attribute\_mapper.ts)\<close>

fun attrList :: "pdfObj option \<Rightarrow> dict list" where
  \<comment> \<open>\<open>Array.isArray(attributes) ? attributes : [attributes]\<close>, keeping the \<open>Dict\<close> entries\<close>
  "attrList None = []"
| "attrList (Some (PArr xs)) = concat (map (\<lambda>x. case x of PDict d \<Rightarrow> [d] | _ \<Rightarrow> []) xs)"
| "attrList (Some (PDict d)) = [d]"
| "attrList (Some _) = []"

definition ownerOf :: "dict \<Rightarrow> string option" where
  "ownerOf d = nameOf (dictGet d ''O'')"

fun ownerStartsWith :: "string option \<Rightarrow> string \<Rightarrow> bool" where
  "ownerStartsWith None p = False"
| "ownerStartsWith (Some s) p = startsWith s p"

datatype category = CatList | CatTable | CatLayout | CatHTML | CatCSS | CatARIA | CatUnknown

definition htmlCategory :: "dict \<Rightarrow> category" where
  \<comment> \<open>the owner dispatch of \<open>getHTMLAttributes\<close>\<close>
  "htmlCategory d =
     (let owner = ownerOf d in
      if owner = Some ''List'' then CatList
      else if owner = Some ''Table'' then CatTable
      else if owner = Some ''Layout'' then CatLayout
      else if ownerStartsWith owner ''HTML'' then CatHTML
      else if ownerStartsWith owner ''CSS'' then CatCSS
      else if owner = Some ''ARIA'' \<or> ownerStartsWith owner ''ARIA'' then CatARIA
      else CatUnknown)"

definition cssCategory :: "dict \<Rightarrow> category" where
  \<comment> \<open>the owner dispatch of \<open>getCSSProperties\<close>\<close>
  "cssCategory d =
     (let owner = ownerOf d in
      if owner = Some ''List'' then CatList
      else if owner = Some ''Table'' then CatTable
      else if owner = Some ''Layout'' then CatLayout
      else if ownerStartsWith owner ''CSS'' then CatCSS
      else CatUnknown)"

definition processListAttributes :: "dict list \<Rightarrow> jsMap \<Rightarrow> jsMap" where
  "processListAttributes ds m =
     runWrites (map (\<lambda>d.
        (let listNumbering = nameOf (dictGet d ''ListNumbering'') in
         (truthyName listNumbering, ''data-list-numbering'',
           toLowerCase (case listNumbering of Some n \<Rightarrow> n | None \<Rightarrow> [])))) ds) m"

definition headersStr :: "pdfObj option \<Rightarrow> string" where
  "headersStr h =
     (case h of
        Some (PArr xs) \<Rightarrow> intersperseStr '' '' (jsJoinElems xs)
      | Some v \<Rightarrow> jsString v
      | None \<Rightarrow> [])"

definition optString :: "pdfObj option \<Rightarrow> string" where
  \<comment> \<open>\<open>String(value)\<close> of a value known to be present\<close>
  "optString v = (case v of Some x \<Rightarrow> jsString x | None \<Rightarrow> ''undefined'')"

definition optName :: "string option \<Rightarrow> string" where
  "optName n = (case n of Some s \<Rightarrow> s | None \<Rightarrow> [])"

definition tableSteps :: "dict \<Rightarrow> guardedWrite list" where
  "tableSteps d =
     [(truthy (dictGet d ''ColSpan''), ''colspan'', optString (dictGet d ''ColSpan'')),
      (truthy (dictGet d ''RowSpan''), ''rowspan'', optString (dictGet d ''RowSpan'')),
      (truthy (dictGet d ''Headers''), ''headers'', headersStr (dictGet d ''Headers'')),
      (truthyName (nameOf (dictGet d ''Scope'')), ''scope'',
        toLowerCase (optName (nameOf (dictGet d ''Scope'')))),
      (truthy (dictGet d ''Short''), ''abbr'', optString (dictGet d ''Short'')),
      (truthy (dictGet d ''Summary''), ''abbr'', optString (dictGet d ''Summary''))]"

definition processTableAttributes :: "dict list \<Rightarrow> jsMap \<Rightarrow> jsMap" where
  "processTableAttributes ds m = runWrites (concat (map tableSteps ds)) m"

definition processLayoutAttributesForHTML :: "dict list \<Rightarrow> jsMap \<Rightarrow> jsMap" where
  "processLayoutAttributesForHTML ds m =
     runWrites (map (\<lambda>d.
        (truthyName (nameOf (dictGet d ''Placement'')), ''data-placement'',
          toLowerCase (optName (nameOf (dictGet d ''Placement''))))) ds) m"

definition notNullish :: "pdfObj option \<Rightarrow> bool" where
  \<comment> \<open>\<open>value !== undefined && value !== null\<close>\<close>
  "notNullish v = (case v of None \<Rightarrow> False | Some PNull \<Rightarrow> False | Some _ \<Rightarrow> True)"

definition htmlSteps :: "dict \<Rightarrow> guardedWrite list" where
  "htmlSteps d =
     map (\<lambda>key. (key \<noteq> ''O'' \<and> notNullish (dictGet d key), (''data-html-'' @ toLowerCase key), (optString (dictGet d key))))
         (dictGetKeys d)"

definition processHTMLAttributes :: "dict list \<Rightarrow> jsMap \<Rightarrow> jsMap" where
  "processHTMLAttributes ds m = runWrites (concat (map htmlSteps ds)) m"

definition processCSSAttributesForHTML :: "dict list \<Rightarrow> jsMap \<Rightarrow> jsMap" where
  \<comment> \<open>the loop body is empty\<close>
  "processCSSAttributesForHTML ds m = m"

definition ariaSteps :: "dict \<Rightarrow> guardedWrite list" where
  "ariaSteps d =
     map (\<lambda>key. (key \<noteq> ''O'' \<and> notNullish (dictGet d key), (if startsWith key ''aria-'' then key else ''aria-'' @ toLowerCase key),
                  (optString (dictGet d key))))
         (dictGetKeys d)"

definition processARIAAttributes :: "dict list \<Rightarrow> jsMap \<Rightarrow> jsMap" where
  "processARIAAttributes ds m = runWrites (concat (map ariaSteps ds)) m"

definition ofCategory :: "(dict \<Rightarrow> category) \<Rightarrow> category \<Rightarrow> dict list \<Rightarrow> dict list" where
  "ofCategory cat c ds = filter (\<lambda>d. cat d = c) ds"

definition htmlAttrMap :: "pdfObj option \<Rightarrow> jsMap" where
  \<comment> \<open>the map \<open>attrMap\<close> of \<open>getHTMLAttributes\<close> after the six handlers have run\<close>
  "htmlAttrMap attributes =
     (let ds = attrList attributes in
      processARIAAttributes (ofCategory htmlCategory CatARIA ds)
       (processCSSAttributesForHTML (ofCategory htmlCategory CatCSS ds)
         (processHTMLAttributes (ofCategory htmlCategory CatHTML ds)
           (processLayoutAttributesForHTML (ofCategory htmlCategory CatLayout ds)
             (processTableAttributes
                (ofCategory htmlCategory CatTable ds @ ofCategory htmlCategory CatUnknown ds)
               (processListAttributes (ofCategory htmlCategory CatList ds) []))))))"

definition getHTMLAttributes :: "pdfObj option \<Rightarrow> string" where
  "getHTMLAttributes attributes =
     (if \<not> truthy attributes then []
      else concat (map (\<lambda>(key, value). '' '' @ key @ ''=\"'' @ value @ ''\"'') (htmlAttrMap attributes)))"

definition getBBox :: "pdfObj option \<Rightarrow> pdfObj list option" where
  "getBBox attributes =
     (if \<not> truthy attributes then None
      else case filter (\<lambda>d. case dictGet d ''BBox'' of Some (PArr b) \<Rightarrow> length b = 4 | _ \<Rightarrow> False)
                  (attrList attributes) of
             [] \<Rightarrow> None
           | d # _ \<Rightarrow> (case dictGet d ''BBox'' of Some (PArr b) \<Rightarrow> Some b | _ \<Rightarrow> None))"

definition round255 :: "pdfObj \<Rightarrow> string" where
  \<comment> \<open>\<open>Math.round(x * 255)\<close>, rendered\<close>
  "round255 x = showNumber (numMul (toNumber x) (Some 255))"

definition cmykChannel :: "pdfObj \<Rightarrow> pdfObj \<Rightarrow> string" where
  \<comment> \<open>\<open>Math.round(255 * (1 - c) * (1 - k))\<close>, rendered\<close>
  "cmykChannel c k =
     showNumber (numMul (numMul (Some 255) (numSub (Some 1) (toNumber c))) (numSub (Some 1) (toNumber k)))"

definition parseColor :: "pdfObj option \<Rightarrow> string" where
  "parseColor colorObj =
     (case colorObj of
        Some (PArr [g]) \<Rightarrow>
          ''rgb('' @ round255 g @ '', '' @ round255 g @ '', '' @ round255 g @ '')''
      | Some (PArr [r, g, b]) \<Rightarrow>
          ''rgb('' @ round255 r @ '', '' @ round255 g @ '', '' @ round255 b @ '')''
      | Some (PArr [c, m, y, k]) \<Rightarrow>
          ''rgb('' @ cmykChannel c k @ '', '' @ cmykChannel m k @ '', '' @ cmykChannel y k @ '')''
      | _ \<Rightarrow> ''inherit'')"

definition orElse :: "pdfObj option \<Rightarrow> pdfObj option \<Rightarrow> pdfObj option" where
  \<comment> \<open>\<open>a || b\<close>\<close>
  "orElse a b = (if truthy a then a else b)"

definition px :: "pdfObj option \<Rightarrow> string" where
  \<comment> \<open>the template \<open>`${value}px`\<close>\<close>
  "px v = optString v @ ''px''"

definition lineHeightCss :: "pdfObj option \<Rightarrow> string" where
  "lineHeightCss v =
     (case v of
        Some (PName n) \<Rightarrow> n
      | Some (PNum n) \<Rightarrow> showInt n @ ''pt''
      | other \<Rightarrow> optString other)"

definition borderStyleCss :: "pdfObj option \<Rightarrow> string" where
  "borderStyleCss v = toLowerCase (case v of Some (PName n) \<Rightarrow> n | other \<Rightarrow> optString other)"

definition bboxOf :: "dict \<Rightarrow> pdfObj list option" where
  \<comment> \<open>\<open>Array.isArray(bbox) && bbox.length === 4\<close>\<close>
  "bboxOf d = (case dictGet d ''BBox'' of
                 Some (PArr b) \<Rightarrow> if length b = 4 then Some b else None
               | _ \<Rightarrow> None)"

definition bboxExtent :: "pdfObj list option \<Rightarrow> nat \<Rightarrow> nat \<Rightarrow> string" where
  \<comment> \<open>\<open>`${bbox[hi] - bbox[lo]}px`\<close> for a four-element box\<close>
  "bboxExtent b hi lo =
     (case b of
        Some xs \<Rightarrow> showNumber (numSub (toNumber (xs ! hi)) (toNumber (xs ! lo))) @ ''px''
      | None \<Rightarrow> [])"

definition rubyAlignCss :: "string \<Rightarrow> string" where
  "rubyAlignCss r =
     (if r = ''Start'' then ''start''
      else if r = ''Center'' then ''center''
      else if r = ''End'' then ''end''
      else if r = ''Justify'' then ''space-between''
      else if r = ''Distribute'' then ''space-around''
      else ''auto'')"

definition rubyPositionCss :: "string \<Rightarrow> string" where
  "rubyPositionCss r =
     (if r = ''Before'' then ''over'' else if r = ''After'' then ''under'' else [])"

definition layoutSteps :: "dict \<Rightarrow> guardedWrite list" where
  \<comment> \<open>the statements of \<open>processLayoutCSSProperties\<close>, in source order\<close>
  "layoutSteps d =
     (let placement = nameOf (dictGet d ''Placement'');
          writingMode = nameOf (dictGet d ''WritingMode'');
          textDecoType = nameOf (dictGet d ''TextDecorationType'');
          rubyAlign = nameOf (dictGet d ''RubyAlign'');
          rubyPosition = nameOf (dictGet d ''RubyPosition'');
          borderStyle = orElse (dictGet d ''BorderStyle'') (dictGet d ''TBorderStyle'');
          padding = orElse (dictGet d ''Padding'') (dictGet d ''TPadding'')
      in
     [(truthy (dictGet d ''BackgroundColor''), ''background-color'',
        parseColor (dictGet d ''BackgroundColor'')),
      (truthy (dictGet d ''BorderColor''), ''border-color'', parseColor (dictGet d ''BorderColor'')),
      (truthy borderStyle, ''border-style'', borderStyleCss borderStyle),
      (dictGet d ''BorderThickness'' \<noteq> None, ''border-width'', px (dictGet d ''BorderThickness'')),
      (truthy (dictGet d ''Color''), ''color'', parseColor (dictGet d ''Color'')),
      (padding \<noteq> None, ''padding'', px padding),
      (truthyName (nameOf (dictGet d ''TextAlign'')), ''text-align'',
        toLowerCase (optName (nameOf (dictGet d ''TextAlign'')))),
      (dictGet d ''TextIndent'' \<noteq> None, ''text-indent'', px (dictGet d ''TextIndent'')),
      (truthy (dictGet d ''LineHeight''), ''line-height'', lineHeightCss (dictGet d ''LineHeight'')),
      (dictGet d ''SpaceBefore'' \<noteq> None, ''display'', ''block''),
      (dictGet d ''SpaceBefore'' \<noteq> None, ''margin-top'', px (dictGet d ''SpaceBefore'')),
      (dictGet d ''SpaceAfter'' \<noteq> None, ''display'', ''block''),
      (dictGet d ''SpaceAfter'' \<noteq> None, ''margin-bottom'', px (dictGet d ''SpaceAfter'')),
      (dictGet d ''StartIndent'' \<noteq> None, ''display'', ''block''),
      (dictGet d ''StartIndent'' \<noteq> None, ''margin-left'', px (dictGet d ''StartIndent'')),
      (dictGet d ''EndIndent'' \<noteq> None, ''display'', ''block''),
      (dictGet d ''EndIndent'' \<noteq> None, ''margin-right'', px (dictGet d ''EndIndent'')),
      (bboxOf d \<noteq> None, ''width'', bboxExtent (bboxOf d) 2 0),
      (bboxOf d \<noteq> None, ''height'', bboxExtent (bboxOf d) 3 1),
      (dictGet d ''Width'' \<noteq> None, ''width'', px (dictGet d ''Width'')),
      (dictGet d ''Height'' \<noteq> None, ''height'', px (dictGet d ''Height'')),
      (placement = Some ''Block'', ''display'', ''block''),
      (placement = Some ''Inline'', ''display'', ''inline''),
      (placement = Some ''Before'', ''float'', ''left''),
      (placement = Some ''Before'', ''clear'', ''both''),
      (placement = Some ''Start'', ''float'', ''left''),
      (placement = Some ''End'', ''float'', ''right''),
      (writingMode = Some ''TbRl'', ''writing-mode'', ''vertical-rl''),
      (writingMode = Some ''LrTb'' \<or> writingMode = Some ''RlTb'', ''writing-mode'', ''horizontal-tb''),
      (dictGet d ''BaselineShift'' \<noteq> None, ''vertical-align'', px (dictGet d ''BaselineShift'')),
      (textDecoType = Some ''Underline'', ''text-decoration'', ''underline''),
      (textDecoType = Some ''LineThrough'', ''text-decoration'', ''line-through''),
      (textDecoType = Some ''Overline'', ''text-decoration'', ''overline''),
      (textDecoType = Some ''None'', ''text-decoration'', ''none''),
      (truthy (dictGet d ''TextDecorationColor''), ''text-decoration-color'',
        parseColor (dictGet d ''TextDecorationColor'')),
      (truthyName rubyAlign, ''ruby-align'', rubyAlignCss (optName rubyAlign)),
      (truthyName rubyPosition \<and> rubyPositionCss (optName rubyPosition) \<noteq> [], ''ruby-position'',
        rubyPositionCss (optName rubyPosition))])"

definition processLayoutCSSProperties :: "dict \<Rightarrow> jsMap \<Rightarrow> jsMap" where
  "processLayoutCSSProperties d m = runWrites (layoutSteps d) m"

definition listNumberingCss :: "string \<Rightarrow> string option" where
  "listNumberingCss n =
     (if n = ''Disc'' then Some ''disc''
      else if n = ''Circle'' then Some ''circle''
      else if n = ''Square'' then Some ''square''
      else if n = ''Decimal'' then Some ''decimal''
      else if n = ''UpperRoman'' then Some ''upper-roman''
      else if n = ''LowerRoman'' then Some ''lower-roman''
      else if n = ''UpperAlpha'' then Some ''upper-alpha''
      else if n = ''LowerAlpha'' then Some ''lower-alpha''
      else None)"

definition listCssSteps :: "dict \<Rightarrow> guardedWrite list" where
  "listCssSteps d =
     (let listNumbering = nameOf (dictGet d ''ListNumbering'') in
     [(dictGet d ''StartIndent'' \<noteq> None, ''margin-left'', px (dictGet d ''StartIndent'')),
      (truthyName listNumbering \<and> listNumberingCss (optName listNumbering) \<noteq> None, ''list-style-type'', optName (listNumberingCss (optName listNumbering)))])"

definition processCSSFromList :: "dict list \<Rightarrow> jsMap \<Rightarrow> jsMap" where
  "processCSSFromList ds m = runWrites (concat (map listCssSteps ds)) m"

definition processCSSFromTable :: "dict list \<Rightarrow> jsMap \<Rightarrow> jsMap" where
  \<comment> \<open>the loop body is empty\<close>
  "processCSSFromTable ds m = m"

definition processCSSFromLayout :: "dict list \<Rightarrow> jsMap \<Rightarrow> jsMap" where
  "processCSSFromLayout ds m = fold processLayoutCSSProperties ds m"

definition processCSSFromCSS :: "dict list \<Rightarrow> jsMap \<Rightarrow> jsMap" where
  "processCSSFromCSS ds m = fold processLayoutCSSProperties ds m"

definition cssMapOf :: "pdfObj option \<Rightarrow> jsMap" where
  \<comment> \<open>the map \<open>cssMap\<close> of \<open>getCSSProperties\<close> after the four handlers have run\<close>
  "cssMapOf attributes =
     (let ds = attrList attributes in
      processCSSFromCSS (ofCategory cssCategory CatCSS ds)
        (processCSSFromLayout (ofCategory cssCategory CatLayout ds)
          (processCSSFromTable
             (ofCategory cssCategory CatTable ds @ ofCategory cssCategory CatUnknown ds)
            (processCSSFromList (ofCategory cssCategory CatList ds) []))))"

definition getCSSProperties :: "pdfObj option \<Rightarrow> string" where
  "getCSSProperties attributes =
     (if \<not> truthy attributes then []
      else concat (map (\<lambda>(property, value). property @ '': '' @ value @ ''; '') (cssMapOf attributes)))"


section \<open>Per-page content extraction (content\_extractor.ts)\<close>

text \<open>
  One entry of the page's operator list: the function code and its argument array. An
  argument is a number, a string, a \<open>Dict\<close> (it has \<open>get\<close>), a plain object (it has fields
  only), or absent.
\<close>

datatype opArg =
    ArgNum int
  | ArgStr string
  | ArgDict dict
  | ArgObj "(string \<times> pdfObj) list"
  | ArgUndef

record pdfOperator =
  fn :: nat
  args :: "opArg list"


datatype imageType = XObject | Inline

record extractedImage =
  imgType :: imageType
  imgName :: opArg
  imgData :: opArg
  imgWidth :: "int option"
  imgHeight :: "int option"

record markedContentProps =
  Lang :: "string option"
  ActualText :: "string option"
  Alt :: "string option"
  E :: "string option"

record contentExtractor =
  mcidToText :: "int \<rightharpoonup> string"
  mcidToImages :: "int \<rightharpoonup> extractedImage list"
  mcidToOps :: "int \<rightharpoonup> pdfOperator list"
  mcidToProps :: "int \<rightharpoonup> markedContentProps"

definition newContentExtractor :: contentExtractor where
  "newContentExtractor =
     \<lparr>mcidToText = Map.empty, mcidToImages = Map.empty, mcidToOps = Map.empty,
      mcidToProps = Map.empty\<rparr>"



















definition getText :: "contentExtractor \<Rightarrow> int \<Rightarrow> string" where
  "getText ex mcid = (case mcidToText ex mcid of Some t \<Rightarrow> t | None \<Rightarrow> [])"

definition getImages :: "contentExtractor \<Rightarrow> int \<Rightarrow> extractedImage list" where
  "getImages ex mcid = (case mcidToImages ex mcid of Some images \<Rightarrow> images | None \<Rightarrow> [])"

definition getOperators :: "contentExtractor \<Rightarrow> int \<Rightarrow> pdfOperator list" where
  "getOperators ex mcid = (case mcidToOps ex mcid of Some ops \<Rightarrow> ops | None \<Rightarrow> [])"

definition getProperties :: "contentExtractor \<Rightarrow> int \<Rightarrow> markedContentProps option" where
  "getProperties ex mcid = mcidToProps ex mcid"

definition hasVectorOperators :: "contentExtractor \<Rightarrow> int \<Rightarrow> bool" where
  "hasVectorOperators ex mcid =
     list_ex (\<lambda>op. (13 \<le> fn op \<and> fn op \<le> 28) \<or> fn op = 91) (getOperators ex mcid)"


section \<open>Structure traversal (structure\_traversal.ts): helpers\<close>

definition replaceAll :: "char \<Rightarrow> string \<Rightarrow> string \<Rightarrow> string" where
  \<comment> \<open>\<open>s.replace(/c/g, rep)\<close> for a one-character pattern\<close>
  "replaceAll c rep s = concat (map (\<lambda>x. if x = c then rep else [x]) s)"

definition escapeHtml :: "string \<Rightarrow> string" where
  "escapeHtml unsafe =
     replaceAll (CHR 0x27) ''&#039;''
       (replaceAll (CHR 0x22) ''&quot;''
         (replaceAll CHR ''>'' ''&gt;''
           (replaceAll CHR ''<'' ''&lt;''
             (replaceAll CHR ''&'' ''&amp;'' unsafe))))"

subsection \<open>Whitespace and the inline-space heuristic\<close>

definition getFirstVisibleChar :: "string \<Rightarrow> char option" where
  "getFirstVisibleChar t = (case dropWhile isWhitespaceChar t of [] \<Rightarrow> None | c # _ \<Rightarrow> Some c)"

definition getLastVisibleChar :: "string \<Rightarrow> char option" where
  "getLastVisibleChar t = (case dropWhile isWhitespaceChar (rev t) of [] \<Rightarrow> None | c # _ \<Rightarrow> Some c)"

definition hasVisibleText :: "string \<Rightarrow> bool" where
  "hasVisibleText t = list_ex (\<lambda>c. \<not> isWhitespaceChar c) t"

definition hasLeadingWhitespace :: "string \<Rightarrow> bool" where
  "hasLeadingWhitespace t = (case t of [] \<Rightarrow> False | c # _ \<Rightarrow> isWhitespaceChar c)"

definition hasTrailingWhitespace :: "string \<Rightarrow> bool" where
  "hasTrailingWhitespace t = (case rev t of [] \<Rightarrow> False | c # _ \<Rightarrow> isWhitespaceChar c)"

definition splitEdgeWhitespace :: "string \<Rightarrow> string \<times> string \<times> string" where
  \<comment> \<open>(leading, core, trailing)\<close>
  "splitEdgeWhitespace t =
     (let leading = takeWhile isWhitespaceChar t;
          rest = dropWhile isWhitespaceChar t;
          trailing = rev (takeWhile isWhitespaceChar (rev rest));
          core = rev (dropWhile isWhitespaceChar (rev rest))
      in (leading, core, trailing))"

definition isDigitChar :: "char \<Rightarrow> bool" where
  "isDigitChar c = (48 \<le> (of_char c :: nat) \<and> (of_char c :: nat) \<le> 57)"

definition isUpperChar :: "char \<Rightarrow> bool" where
  "isUpperChar c = (65 \<le> (of_char c :: nat) \<and> (of_char c :: nat) \<le> 90)"

definition isLowerChar :: "char \<Rightarrow> bool" where
  "isLowerChar c = (97 \<le> (of_char c :: nat) \<and> (of_char c :: nat) \<le> 122)"

definition isLetterChar :: "char \<Rightarrow> bool" where
  "isLetterChar c = (isUpperChar c \<or> isLowerChar c)"

definition isWordChar :: "char \<Rightarrow> bool" where
  "isWordChar c = (isLetterChar c \<or> isDigitChar c)"

definition isHeadingRoleName :: "string option \<Rightarrow> bool" where
  "isHeadingRoleName role =
     (case role of
        None \<Rightarrow> False
      | Some r \<Rightarrow>
          if r = [] then False
          else if r = ''H'' \<or> r = ''Hn'' \<or> r = ''Title'' then True
          else explicitHeadingRe r)"

definition inlineTypes :: "string list" where
  "inlineTypes =
     [''Span'', ''Quote'', ''Reference'', ''BibEntry'', ''Code'', ''Link'',
      ''Annot'', ''Ruby'', ''RB'', ''RT'', ''RP'', ''Warichu'', ''WT'', ''WP'',
      ''P'', ''H'', ''H1'', ''H2'', ''H3'', ''H4'', ''H5'', ''H6'',
      ''Em'', ''Strong'', ''Sub'', ''Sup'', ''TH'', ''TD'']"

definition isInlineContext :: "string option \<Rightarrow> bool" where
  "isInlineContext parentRole =
     (case parentRole of
        None \<Rightarrow> False
      | Some r \<Rightarrow>
          if r = [] then False
          else if isHeadingRoleName parentRole then True
          else r \<in> set inlineTypes)"

definition shouldInsertInlineSpace ::
  "string option \<Rightarrow> string option \<Rightarrow> string \<Rightarrow> string \<Rightarrow> bool \<Rightarrow> bool \<Rightarrow> string option \<Rightarrow> bool" where
  "shouldInsertInlineSpace parentRole childRole prevText nextText prevHadActualText nextHasActualText nextRootTag =
     (if \<not> isInlineContext parentRole then False
      else if prevText = [] \<or> nextText = [] then False
      else if childRole = Some ''Sup'' \<or> childRole = Some ''Sub'' then False
      else if nextRootTag = Some ''sup'' \<or> nextRootTag = Some ''sub'' then False
      else if \<not> hasVisibleText prevText \<or> \<not> hasVisibleText nextText then False
      else if hasTrailingWhitespace prevText \<or> hasLeadingWhitespace nextText then False
      else case (getLastVisibleChar prevText, getFirstVisibleChar nextText) of
             (Some prevChar, Some nextChar) \<Rightarrow>
               if \<not> (prevHadActualText \<or> nextHasActualText \<or> prevChar \<in> set '':;.!?'') then False
               else if prevChar \<in> set [CHR ''('', CHR ''['', CHR ''{'', CHR 0x22, CHR 0x27, CHR ''/'', CHR ''-''] then False
               else if nextChar \<in> set '']'' \<or> nextChar \<in> set '')}.,;:!?%'' then False
               else isWordChar nextChar
           | _ \<Rightarrow> False)"

subsection \<open>Role to tag\<close>

definition isMathMLTokenElement :: "string \<Rightarrow> bool" where
  "isMathMLTokenElement tag =
     (let normalized = toLowerCase tag in
      normalized = ''mi'' \<or> normalized = ''mn'' \<or> normalized = ''mo''
      \<or> normalized = ''mtext'' \<or> normalized = ''ms'')"

definition roleTagTable :: "(string \<times> string) list" where
  \<comment> \<open>the cases of the \<open>switch\<close> in \<open>mapRoleToTag\<close> that return a constant\<close>
  "roleTagTable =
     [(''Document'', ''div''), (''Part'', ''div''), (''Sect'', ''section''), (''Div'', ''div''),
      (''Art'', ''article''), (''Aside'', ''aside''), (''Note'', ''p''), (''Index'', ''section''),
      (''NonStruct'', ''div''), (''Private'', ''div''), (''Title'', ''h1''), (''FENote'', ''aside''),
      (''DocumentFragment'', ''div''),
      (''P'', ''p''), (''H'', ''h2''), (''H1'', ''h1''), (''H2'', ''h2''), (''H3'', ''h3''),
      (''H4'', ''h4''), (''H5'', ''h5''), (''H6'', ''h6''), (''BlockQuote'', ''blockquote''),
      (''TOC'', ''ol''), (''TOCI'', ''li''), (''L'', ''ul''), (''LI'', ''li''), (''Lbl'', ''span''),
      (''LBody'', ''div''), (''Table'', ''table''), (''TR'', ''tr''), (''TH'', ''th''), (''TD'', ''td''),
      (''THead'', ''thead''), (''TBody'', ''tbody''), (''TFoot'', ''tfoot''), (''Span'', ''span''),
      (''Quote'', ''q''), (''Code'', ''code''), (''Em'', ''em''), (''Strong'', ''strong''),
      (''Sub'', ''sub''), (''Sup'', ''sup''), (''Link'', ''a''), (''Reference'', ''a''),
      (''BibEntry'', ''p''), (''Ruby'', ''ruby''), (''RB'', ''rb''), (''RT'', ''rt''), (''RP'', ''rp''),
      (''Warichu'', ''span''), (''WT'', ''span''), (''WP'', ''span''), (''Annot'', ''span''),
      (''Form'', ''div'')]"

definition mapRoleToTag :: "string \<Rightarrow> string option \<Rightarrow> string" where
  "mapRoleToTag role parentRole =
     (if role = ''P'' \<and> isHeadingRoleName parentRole then ''span''
      else if role = ''Caption'' then
        (if parentRole = Some ''Table'' then ''caption''
         else if parentRole = Some ''Figure'' \<or> parentRole = Some ''Formula'' then ''figcaption''
         else ''caption'')
      else if role = ''Figure'' \<or> role = ''Formula'' then
        (if isInlineContext parentRole then ''span'' else ''figure'')
      else case map_of roleTagTable role of
             Some tag \<Rightarrow> tag
           | None \<Rightarrow> ''div'')"

subsection \<open>Numbers in role names and list labels\<close>

definition digitsValue :: "string \<Rightarrow> nat" where
  "digitsValue ds = foldl (\<lambda>acc c. 10 * acc + ((of_char c :: nat) - 48)) 0 ds"

definition parseInt10 :: "string \<Rightarrow> int option" where
  \<comment> \<open>\<open>parseInt(s, 10)\<close>: leading whitespace, an optional sign, then the longest run of
      digits; \<^const>\<open>None\<close> is \<open>NaN\<close>\<close>
  "parseInt10 s =
     (let t = dropWhile isWhitespaceChar s;
          neg = (case t of c # _ \<Rightarrow> c = CHR ''-'' | [] \<Rightarrow> False);
          u = (case t of c # r \<Rightarrow> if c = CHR ''-'' \<or> c = CHR ''+'' then r else t | [] \<Rightarrow> t);
          ds = takeWhile isDigitChar u
      in if ds = [] then None
         else Some (if neg then - int (digitsValue ds) else int (digitsValue ds)))"

definition parseListStart :: "string option \<Rightarrow> int option" where
  \<comment> \<open>the first run of digits of the label\<close>
  "parseListStart labelText =
     (case labelText of
        None \<Rightarrow> None
      | Some t \<Rightarrow>
          if t = [] then None
          else let ds = takeWhile isDigitChar (dropWhile (\<lambda>c. \<not> isDigitChar c) t)
               in if ds = [] then None else Some (int (digitsValue ds)))"

definition isRomanLetter :: "char \<Rightarrow> bool" where
  "isRomanLetter c = (toLowerChar c \<in> set ''ivxlcdm'')"

definition parseListType :: "string option \<Rightarrow> string option" where
  "parseListType labelText =
     (case labelText of
        None \<Rightarrow> None
      | Some t \<Rightarrow>
          if t = [] then None
          else let letters = takeWhile isLetterChar (dropWhile (\<lambda>c. \<not> isLetterChar c) t);
                   isUpper = list_all isUpperChar letters
               in if letters = [] then None
                  else if list_all isRomanLetter letters then Some (if isUpper then ''I'' else ''i'')
                  else Some (if isUpper then ''A'' else ''a''))"

subsection \<open>Rendered content, traversal context, identifier table\<close>

record renderedContent =
  html :: string
  text' :: string
  rootTag :: "string option"

definition emptyRendered :: renderedContent where
  "emptyRendered = \<lparr>html = [], text' = [], rootTag = None\<rparr>"

type_synonym pageRef = "nat \<times> nat"

record traversalContext =
  parentRole :: "string option"
  listNumbering :: "string option"
  listHasLbl :: bool
  bbox :: "pdfObj list option"
  headingLevel :: "int option"
  imageAlt :: "string option"
  preferVector :: bool
  mathmlTokenContext :: bool

text \<open>
  The identifier-allocation table. The table is one mutable object shared by every
  traversal context, so it is threaded through the traversal as a state. \<open>byDict\<close> is keyed
  by object identity: every dictionary of the tree carries a number standing for it.
\<close>

record idState =
  byRef :: "string \<rightharpoonup> string"
  byDict :: "nat \<rightharpoonup> string"
  counter :: nat

definition getRefKey :: "pageRef \<Rightarrow> string" where
  "getRefKey r = showNat (fst r) @ ''R'' @ showNat (snd r)"

definition nonEmpty :: "string option \<Rightarrow> string option" where
  \<comment> \<open>\<open>value || null\<close> on an optional string\<close>
  "nonEmpty v = (case v of Some s \<Rightarrow> if s = [] then None else Some s | None \<Rightarrow> None)"

definition lookupGeneratedId :: "pageRef option \<Rightarrow> nat \<Rightarrow> idState \<Rightarrow> string option" where
  "lookupGeneratedId childRef oid ids =
     (case childRef of
        Some r \<Rightarrow> nonEmpty (byRef ids (getRefKey r))
      | None \<Rightarrow> nonEmpty (byDict ids oid))"

definition ensureGeneratedId :: "pageRef option \<Rightarrow> nat \<Rightarrow> idState \<Rightarrow> string \<times> idState" where
  "ensureGeneratedId childRef oid ids =
     (case lookupGeneratedId childRef oid ids of
        Some existing \<Rightarrow> (existing, ids)
      | None \<Rightarrow>
         (case childRef of
            Some r \<Rightarrow>
              (let generated = ''pdf-se-'' @ showNat (fst r) @ ''-'' @ showNat (snd r)
               in (generated, ids\<lparr>byRef := (byRef ids)(getRefKey r \<mapsto> generated)\<rparr>))
          | None \<Rightarrow>
              (let generated = ''pdf-se-'' @ showNat (counter ids)
               in (generated, ids\<lparr>counter := counter ids + 1, byDict := (byDict ids)(oid \<mapsto> generated)\<rparr>))))"


section \<open>The structure tree and the conversion context\<close>

text \<open>
  A child in a \<open>K\<close> slot is a number (a content id), or a dictionary, given directly or
  through an indirect reference; \<open>ChildNull\<close> is a reference that resolves to nothing. A
  dictionary child carries the reference it was reached through (if any), a number standing
  for the identity of the dictionary object, its entries other than \<open>K\<close>, and its \<open>K\<close> slot.
  The slot is absent, a single child, or an array. The structure is taken to be a tree.
\<close>

datatype structChild =
    ChildNull
  | ChildNum int
  | ChildDict "pageRef option" nat dict kids
and kids =
    KNone
  | KOne structChild
  | KArr "structChild list"

record structTreeRootT =
  treeK :: kids
  treeRoleMap :: "roleMap option"
  treeClassMap :: "pdfObj option"

text \<open>
  The conversion context. Besides the structure tree it holds what the object-model
  provider and the parts outside this development compute: string decoding, page lookup,
  the extractor of each page after its extraction pass, the associated files of an element,
  the markup of an object reference, the target of a link (its resolution may allocate an
  identifier for a destination element), the markup of an extracted image and of a vector
  drawing, and the plain text of replacement markup.
\<close>

record pdfContext =
  structTreeRoot :: "structTreeRootT option"
  stringToPDFString :: "string \<Rightarrow> string"
  getPageIndex :: "pageRef \<Rightarrow> int"
  pageExtractor :: "int \<Rightarrow> contentExtractor"
  processAssociatedFiles :: "pdfObj \<Rightarrow> string option \<times> string list"
  processOBJR :: "dict \<Rightarrow> pageRef option \<Rightarrow> renderedContent"
  resolveLinkHref :: "dict \<Rightarrow> kids \<Rightarrow> idState \<Rightarrow> string \<times> idState"
  imageMarkup :: "extractedImage \<Rightarrow> pdfObj list option \<Rightarrow> string option \<Rightarrow> pageRef \<Rightarrow> string"
  renderVectorGraphics :: "pdfOperator list \<Rightarrow> pdfObj list \<Rightarrow> string"
  extractTextFromHtml :: "string \<Rightarrow> string"

definition roleMapOf :: "pdfContext \<Rightarrow> roleMap option" where
  \<comment> \<open>\<open>context.structTreeRoot?.roleMap\<close>\<close>
  "roleMapOf cx = (case structTreeRoot cx of Some root \<Rightarrow> treeRoleMap root | None \<Rightarrow> None)"

definition strEntry :: "dict \<Rightarrow> string \<Rightarrow> string option" where
  \<comment> \<open>an entry declared \<open>string | undefined\<close> and tested for truth: a non-empty string\<close>
  "strEntry d k = (case dictGet d k of Some (PStr s) \<Rightarrow> if s = [] then None else Some s | _ \<Rightarrow> None)"

definition getRawPg :: "dict \<Rightarrow> pageRef option" where
  \<comment> \<open>\<open>dict.getRaw("Pg")\<close>\<close>
  "getRawPg d = (case map_of d ''Pg'' of Some (PRef n g) \<Rightarrow> Some (n, g) | _ \<Rightarrow> None)"

definition getNamespaceURI :: "pdfContext \<Rightarrow> dict \<Rightarrow> string" where
  "getNamespaceURI cx d =
     (case dictGet d ''NS'' of
        Some (PDict nsDict) \<Rightarrow>
          (case strEntry nsDict ''NS'' of Some nsValue \<Rightarrow> stringToPDFString cx nsValue | None \<Rightarrow> [])
      | _ \<Rightarrow> [])"

definition structType :: "dict \<Rightarrow> string option" where
  \<comment> \<open>\<open>dict.get("S")?.name\<close>, when truthy\<close>
  "structType d = nonEmpty (nameOf (dictGet d ''S''))"

definition elemRole :: "pdfContext \<Rightarrow> structChild \<Rightarrow> string option" where
  \<comment> \<open>\<open>getElementRole\<close>: the resolved role of a dictionary child that has a type\<close>
  "elemRole cx c =
     (case c of
        ChildDict r oid d k \<Rightarrow>
          (case structType d of
             Some s \<Rightarrow> Some (resolveRole s (roleMapOf cx) (getNamespaceURI cx d))
           | None \<Rightarrow> None)
      | _ \<Rightarrow> None)"

definition getElementInfo :: "pdfContext \<Rightarrow> structChild \<Rightarrow> string option \<times> bool" where
  \<comment> \<open>(role, hasActualText)\<close>
  "getElementInfo cx c =
     (case c of
        ChildDict r oid d k \<Rightarrow>
          (case structType d of
             Some s \<Rightarrow> (elemRole cx c, dictGet d ''ActualText'' \<noteq> None)
           | None \<Rightarrow> (None, False))
      | _ \<Rightarrow> (None, False))"

definition reorderCaptionElements :: "pdfContext \<Rightarrow> structChild list \<Rightarrow> structChild list" where
  "reorderCaptionElements cx children =
     filter (\<lambda>c. elemRole cx c = Some ''Caption'') children
     @ filter (\<lambda>c. elemRole cx c \<noteq> Some ''Caption'') children"

definition falsyChild :: "structChild \<Rightarrow> bool" where
  \<comment> \<open>a single \<open>K\<close> value that fails \<open>if (k)\<close>: nothing, or the number 0\<close>
  "falsyChild c = (case c of ChildNull \<Rightarrow> True | ChildNum n \<Rightarrow> n = 0 | _ \<Rightarrow> False)"

definition falsyKids :: "kids \<Rightarrow> bool" where
  "falsyKids k = (case k of KNone \<Rightarrow> True | KOne c \<Rightarrow> falsyChild c | KArr cs \<Rightarrow> False)"

definition kidsList :: "kids \<Rightarrow> structChild list" where
  \<comment> \<open>\<open>if (!k) return ...; Array.isArray(k) ? k : [k]\<close>\<close>
  "kidsList k = (case k of KNone \<Rightarrow> [] | KOne c \<Rightarrow> if falsyChild c then [] else [c] | KArr cs \<Rightarrow> cs)"

definition hasLinkChild :: "pdfContext \<Rightarrow> kids \<Rightarrow> bool" where
  \<comment> \<open>looks at the immediate children only\<close>
  "hasLinkChild cx k = list_ex (\<lambda>c. elemRole cx c = Some ''Link'') (kidsList k)"

fun hasLblDescendant :: "pdfContext \<Rightarrow> structChild \<Rightarrow> nat list \<Rightarrow> bool \<times> nat list"
  and hasLblInKids :: "pdfContext \<Rightarrow> kids \<Rightarrow> nat list \<Rightarrow> bool \<times> nat list"
  and hasLblInList :: "pdfContext \<Rightarrow> structChild list \<Rightarrow> nat list \<Rightarrow> bool \<times> nat list" where
  \<comment> \<open>the set \<open>seen\<close> of dictionaries already visited is threaded through the search\<close>
  "hasLblDescendant cx (ChildDict r oid d k) seen =
     (if oid \<in> set seen then (False, seen)
      else if elemRole cx (ChildDict r oid d k) = Some ''Lbl'' then (True, oid # seen)
      else hasLblInKids cx k (oid # seen))"
| "hasLblDescendant cx ChildNull seen = (False, seen)"
| "hasLblDescendant cx (ChildNum n) seen = (False, seen)"
| "hasLblInKids cx KNone seen = (False, seen)"
| "hasLblInKids cx (KOne c) seen = hasLblDescendant cx c seen"
| "hasLblInKids cx (KArr cs) seen = hasLblInList cx cs seen"
| "hasLblInList cx [] seen = (False, seen)"
| "hasLblInList cx (c # cs) seen =
     (case hasLblDescendant cx c seen of
        (True, seen1) \<Rightarrow> (True, seen1)
      | (False, seen1) \<Rightarrow> hasLblInList cx cs seen1)"

fun hasLblItems :: "pdfContext \<Rightarrow> string \<Rightarrow> structChild list \<Rightarrow> nat list \<Rightarrow> bool" where
  \<comment> \<open>the outer loop of \<open>hasLblChildren\<close> over the children of the list element\<close>
  "hasLblItems cx listItemRole [] seen = False"
| "hasLblItems cx listItemRole (c # cs) seen =
     (if elemRole cx c = Some listItemRole then
        (case hasLblDescendant cx c seen of
           (True, seen1) \<Rightarrow> True
         | (False, seen1) \<Rightarrow> hasLblItems cx listItemRole cs seen1)
      else hasLblItems cx listItemRole cs seen)"

definition hasLblChildren :: "pdfContext \<Rightarrow> kids \<Rightarrow> string \<Rightarrow> bool" where
  "hasLblChildren cx k listItemRole = hasLblItems cx listItemRole (kidsList k) []"

definition fetchTextForMCID :: "pdfContext \<Rightarrow> int \<Rightarrow> pageRef option \<Rightarrow> string" where
  "fetchTextForMCID cx mcid pgRef =
     (case pgRef of
        None \<Rightarrow> []
      | Some pg \<Rightarrow>
          if getPageIndex cx pg = - 1 then []
          else getText (pageExtractor cx (getPageIndex cx pg)) mcid)"

definition mcidEntry :: "dict \<Rightarrow> int option" where
  \<comment> \<open>\<open>dict.get("MCID")\<close> when \<open>Number.isInteger\<close> holds of it\<close>
  "mcidEntry d = (case dictGet d ''MCID'' of Some (PNum n) \<Rightarrow> Some n | _ \<Rightarrow> None)"

definition orPage :: "pageRef option \<Rightarrow> pageRef option \<Rightarrow> pageRef option" where
  \<comment> \<open>\<open>dict.getRaw("Pg") || inheritedPageRef\<close>\<close>
  "orPage own inherited = (case own of Some pg \<Rightarrow> Some pg | None \<Rightarrow> inherited)"

fun plainTextOfChild :: "pdfContext \<Rightarrow> structChild \<Rightarrow> pageRef option \<Rightarrow> string"
  and plainTextOfKids :: "pdfContext \<Rightarrow> kids \<Rightarrow> pageRef option \<Rightarrow> string"
  and plainTextOfList :: "pdfContext \<Rightarrow> structChild list \<Rightarrow> pageRef option \<Rightarrow> string" where
  \<comment> \<open>\<open>plainTextOfChild\<close> is one iteration of the loop of \<open>getPlainTextForStructElement\<close>
      over the children; for a structure element it is the recursive call, with the page
      reference in force for that element\<close>
  "plainTextOfChild cx ChildNull inheritedPageRef = []"
| "plainTextOfChild cx (ChildNum n) inheritedPageRef =
     (if n = 0 then [] else fetchTextForMCID cx n inheritedPageRef)"
| "plainTextOfChild cx (ChildDict r oid d k) inheritedPageRef =
     (if nameOf (dictGet d ''Type'') = Some ''MCR'' then
        (case mcidEntry d of
           Some mcid \<Rightarrow> fetchTextForMCID cx mcid (orPage (getRawPg d) inheritedPageRef)
         | None \<Rightarrow> [])
      else if nameOf (dictGet d ''Type'') = Some ''OBJR'' then []
      else case strEntry d ''ActualText'' of
             Some actualText \<Rightarrow> stringToPDFString cx actualText
           | None \<Rightarrow> plainTextOfKids cx k (orPage (getRawPg d) inheritedPageRef))"
| "plainTextOfKids cx KNone inheritedPageRef = []"
| "plainTextOfKids cx (KOne c) inheritedPageRef = plainTextOfChild cx c inheritedPageRef"
| "plainTextOfKids cx (KArr cs) inheritedPageRef = plainTextOfList cx cs inheritedPageRef"
| "plainTextOfList cx [] inheritedPageRef = []"
| "plainTextOfList cx (c # cs) inheritedPageRef =
     plainTextOfChild cx c inheritedPageRef @ plainTextOfList cx cs inheritedPageRef"

definition getPlainTextForStructElement :: "pdfContext \<Rightarrow> dict \<Rightarrow> kids \<Rightarrow> pageRef option \<Rightarrow> string" where
  \<comment> \<open>the element is given by its entries and its \<open>K\<close> slot\<close>
  "getPlainTextForStructElement cx d k inheritedPageRef =
     (case strEntry d ''ActualText'' of
        Some actualText \<Rightarrow> stringToPDFString cx actualText
      | None \<Rightarrow> plainTextOfKids cx k inheritedPageRef)"


section \<open>Marked-content leaves\<close>

definition truthyStr :: "string option \<Rightarrow> bool" where
  "truthyStr v = (nonEmpty v \<noteq> None)"

definition strOf :: "string option \<Rightarrow> string" where
  "strOf v = (case v of Some s \<Rightarrow> s | None \<Rightarrow> [])"

definition propLang :: "markedContentProps option \<Rightarrow> string option" where
  \<comment> \<open>\<open>props?.Lang\<close>\<close>
  "propLang props = (case props of Some p \<Rightarrow> Lang p | None \<Rightarrow> None)"

definition propActualText :: "markedContentProps option \<Rightarrow> string option" where
  "propActualText props = (case props of Some p \<Rightarrow> ActualText p | None \<Rightarrow> None)"

definition propAlt :: "markedContentProps option \<Rightarrow> string option" where
  "propAlt props = (case props of Some p \<Rightarrow> Alt p | None \<Rightarrow> None)"

definition textMarkup :: "markedContentProps option \<Rightarrow> string \<Rightarrow> bool \<Rightarrow> bool \<Rightarrow> string" where
  \<comment> \<open>the text part of \<open>fetchContentForMCID\<close>: the markup appended for the text of a region\<close>
  "textMarkup props rawText trimText suppressText =
     (case splitEdgeWhitespace rawText of (rawLeading, rawCore, rawTrailing) \<Rightarrow>
        let leadingWhitespace = (if trimText then [] else rawLeading);
            trailingWhitespace = (if trimText then [] else rawTrailing);
            renderedText = (if trimText then rawCore else rawText);
            escapedLeading = escapeHtml leadingWhitespace;
            escapedCore = escapeHtml rawCore;
            escapedTrailing = escapeHtml trailingWhitespace;
            escapedText = escapeHtml renderedText
        in if escapedText \<noteq> [] \<and> \<not> suppressText then
             (if truthyStr (propLang props) then
                escapedLeading @ ''<span lang=\"'' @ escapeHtml (strOf (propLang props)) @ ''\"''
                @ (if truthyStr (propAlt props)
                   then '' title=\"'' @ escapeHtml (strOf (propAlt props)) @ ''\"'' else [])
                @ ''>'' @ escapedCore @ ''</span>'' @ escapedTrailing
              else escapedLeading @ escapedCore @ escapedTrailing)
           else if truthyStr (propAlt props) \<and> escapedText = [] then
             ''<span title=\"'' @ escapeHtml (strOf (propAlt props)) @ ''\"></span>''
           else [])"

definition fetchContentForMCID ::
  "pdfContext \<Rightarrow> int \<Rightarrow> pageRef \<Rightarrow> pdfObj list option \<Rightarrow> string option \<Rightarrow> bool \<Rightarrow> bool \<Rightarrow> renderedContent" where
  "fetchContentForMCID cx mcid pgRef box alt vectorPreferred trimText =
     (if getPageIndex cx pgRef = - 1 then emptyRendered
      else
        let extractor = pageExtractor cx (getPageIndex cx pgRef);
            images = getImages extractor mcid;
            hasImages = (images \<noteq> []);
            imagesHtml = concat (map (\<lambda>img. imageMarkup cx img box alt pgRef) images);
            props = getProperties extractor mcid;
            rawText = (if truthyStr (propActualText props) then strOf (propActualText props)
                       else getText extractor mcid);
            renderedText = (if trimText then fst (snd (splitEdgeWhitespace rawText)) else rawText);
            escapedText = escapeHtml renderedText;
            hasVector = (box \<noteq> None \<and> hasVectorOperators extractor mcid);
            suppressText = (vectorPreferred \<and> \<not> hasImages \<and> hasVector);
            vectorHtml =
              (if \<not> hasImages \<and> hasVector \<and> (vectorPreferred \<or> escapedText = []) then
                 (if getOperators extractor mcid \<noteq> [] then
                    renderVectorGraphics cx (getOperators extractor mcid) (case box of Some b \<Rightarrow> b | None \<Rightarrow> [])
                  else [])
               else [])
        in \<lparr>html = imagesHtml @ textMarkup props rawText trimText suppressText @ vectorHtml,
            text' = (if escapedText \<noteq> [] \<and> \<not> suppressText then renderedText else []),
            rootTag = None\<rparr>)"

definition processMCR ::
  "pdfContext \<Rightarrow> dict \<Rightarrow> pageRef option \<Rightarrow> pdfObj list option \<Rightarrow> string option \<Rightarrow> bool \<Rightarrow> bool \<Rightarrow> renderedContent" where
  "processMCR cx mcr inheritedPageRef box alt vectorPreferred trimText =
     (case (mcidEntry mcr, orPage (getRawPg mcr) inheritedPageRef) of
        (Some mcid, Some pgRef) \<Rightarrow> fetchContentForMCID cx mcid pgRef box alt vectorPreferred trimText
      | _ \<Rightarrow> emptyRendered)"

definition processMCID ::
  "pdfContext \<Rightarrow> int \<Rightarrow> pageRef \<Rightarrow> pdfObj list option \<Rightarrow> string option \<Rightarrow> bool \<Rightarrow> bool \<Rightarrow> renderedContent" where
  "processMCID cx mcid pgRef box alt vectorPreferred trimText =
     fetchContentForMCID cx mcid pgRef box alt vectorPreferred trimText"

section \<open>Element attributes and list numbering\<close>

definition getAttribute :: "pdfObj option \<Rightarrow> string \<Rightarrow> pdfObj option" where
  \<comment> \<open>the first truthy value of the key; \<^const>\<open>None\<close> is \<open>null\<close>\<close>
  "getAttribute attributes name =
     (case attributes of
        Some (PDict d) \<Rightarrow> if truthy (dictGet d name) then dictGet d name else None
      | Some (PArr xs) \<Rightarrow>
          (case filter (\<lambda>d. truthy (dictGet d name)) (attrList attributes) of
             [] \<Rightarrow> None
           | d # _ \<Rightarrow> dictGet d name)
      | _ \<Rightarrow> None)"

definition pdfStringOf :: "pdfContext \<Rightarrow> pdfObj \<Rightarrow> string" where
  \<comment> \<open>\<open>stringToPDFString(value)\<close>\<close>
  "pdfStringOf cx v = stringToPDFString cx (jsString v)"

definition getPronunciationHint :: "pdfContext \<Rightarrow> pdfObj option \<Rightarrow> string option" where
  "getPronunciationHint cx attributes =
     (case getAttribute attributes ''Phoneme'' of
        Some phoneme \<Rightarrow> Some (pdfStringOf cx phoneme)
      | None \<Rightarrow>
          (case getAttribute attributes ''Pronunciation'' of
             Some pronunciation \<Rightarrow> Some (pdfStringOf cx pronunciation)
           | None \<Rightarrow> None))"

definition className :: "pdfContext \<Rightarrow> pdfObj \<Rightarrow> string list" where
  \<comment> \<open>\<open>pushName\<close>: what one class value adds to the list\<close>
  "className cx v =
     (case v of
        PName n \<Rightarrow> [n]
      | PStr s \<Rightarrow> [s]
      | PNull \<Rightarrow> []
      | other \<Rightarrow> [pdfStringOf cx other])"

definition extractClassNames :: "pdfContext \<Rightarrow> pdfObj option \<Rightarrow> string list" where
  "extractClassNames cx classes =
     filter (\<lambda>s. s \<noteq> [])
       (case classes of
          Some (PArr xs) \<Rightarrow> concat (map (className cx) xs)
        | Some v \<Rightarrow> className cx v
        | None \<Rightarrow> [])"

definition classListNumbering :: "pdfObj option \<Rightarrow> string option" where
  \<comment> \<open>the list numbering one class-map entry provides\<close>
  "classListNumbering classEntry =
     (case filter (\<lambda>d. ownerOf d = Some ''List'' \<and> truthyName (nameOf (dictGet d ''ListNumbering'')))
             (attrList classEntry) of
        [] \<Rightarrow> None
      | d # _ \<Rightarrow> nameOf (dictGet d ''ListNumbering''))"

definition getListNumbering :: "pdfContext \<Rightarrow> pdfObj option \<Rightarrow> pdfObj option \<Rightarrow> string option" where
  "getListNumbering cx attributes classes =
     (if truthyName (nameOf (getAttribute attributes ''ListNumbering''))
      then nameOf (getAttribute attributes ''ListNumbering'')
      else if extractClassNames cx classes = [] then None
      else case (case structTreeRoot cx of Some root \<Rightarrow> treeClassMap root | None \<Rightarrow> None) of
             Some (PDict classMap) \<Rightarrow>
               (case filter (\<lambda>n. classListNumbering (dictGet classMap n) \<noteq> None)
                       (extractClassNames cx classes) of
                  [] \<Rightarrow> None
                | n # _ \<Rightarrow> classListNumbering (dictGet classMap n))
           | _ \<Rightarrow> None)"

definition collapseWhitespace :: "string \<Rightarrow> string" where
  \<comment> \<open>\<open>text.replace(/\s+/g, " ")\<close>\<close>
  "collapseWhitespace t =
     foldr (\<lambda>c acc. if isWhitespaceChar c
                     then (case acc of c' # _ \<Rightarrow> if c' = CHR '' '' then acc else CHR '' '' # acc
                                     | [] \<Rightarrow> [CHR '' ''])
                     else c # acc) t []"

fun firstLblText :: "pdfContext \<Rightarrow> structChild list \<Rightarrow> pageRef option \<Rightarrow> string option option" where
  \<comment> \<open>the inner loop of \<open>getFirstListLabelText\<close> over the children of one list item: the
      outer \<^const>\<open>None\<close> says that no label was found\<close>
  "firstLblText cx [] inheritedPageRef = None"
| "firstLblText cx (c # cs) inheritedPageRef =
     (if elemRole cx c = Some ''Lbl'' then
        (case c of
           ChildDict r oid d k \<Rightarrow>
             Some (nonEmpty (Some (trimJs (collapseWhitespace
               (getPlainTextForStructElement cx d k (orPage (getRawPg d) inheritedPageRef))))))
         | _ \<Rightarrow> firstLblText cx cs inheritedPageRef)
      else firstLblText cx cs inheritedPageRef)"

fun firstListLabel :: "pdfContext \<Rightarrow> structChild list \<Rightarrow> pageRef option \<Rightarrow> string option" where
  \<comment> \<open>the outer loop of \<open>getFirstListLabelText\<close> over the children of the list\<close>
  "firstListLabel cx [] inheritedPageRef = None"
| "firstListLabel cx (c # cs) inheritedPageRef =
     (if elemRole cx c = Some ''LI'' then
        (case c of
           ChildDict r oid d k \<Rightarrow>
             (case firstLblText cx (kidsList k) inheritedPageRef of
                Some found \<Rightarrow> found
              | None \<Rightarrow> firstListLabel cx cs inheritedPageRef)
         | _ \<Rightarrow> firstListLabel cx cs inheritedPageRef)
      else firstListLabel cx cs inheritedPageRef)"

definition getFirstListLabelText :: "pdfContext \<Rightarrow> kids \<Rightarrow> pageRef option \<Rightarrow> string option" where
  "getFirstListLabelText cx k inheritedPageRef = firstListLabel cx (kidsList k) inheritedPageRef"


section \<open>Tag selection\<close>

definition orDefault :: "int option \<Rightarrow> int \<Rightarrow> int" where
  \<comment> \<open>\<open>n || d\<close> on an optional number\<close>
  "orDefault x d = (case x of Some n \<Rightarrow> if n = 0 then d else n | None \<Rightarrow> d)"

record tagSelection =
  selTag :: string
  selRole :: string
  selCtx :: traversalContext
  selListStart :: "int option"
  selListType :: "string option"
  selAriaLevel :: "int option"

definition isGroupingRole :: "string \<Rightarrow> bool" where
  "isGroupingRole r =
     (r = ''Sect'' \<or> r = ''Div'' \<or> r = ''Art'' \<or> r = ''Aside'' \<or> r = ''Part''
      \<or> r = ''DocumentFragment'')"

definition headingTag :: "string \<Rightarrow> traversalContext \<Rightarrow> string \<Rightarrow> string \<times> int option" where
  \<comment> \<open>the heading block: the tag and \<open>headingAriaLevel\<close>\<close>
  "headingTag mappedRole tctx tag0 =
     (let isExplicitHeading = explicitHeadingRe mappedRole;
          isGenericHeading = (mappedRole = ''H'' \<or> mappedRole = ''Hn'' \<or> mappedRole = ''Title'')
      in if isExplicitHeading \<or> isGenericHeading then
           (if parentRole tctx = Some ''TH'' \<or> parentRole tctx = Some ''TD'' then (''p'', None)
            else
              let parsed = (if mappedRole = ''Title'' then Some 1
                            else if isExplicitHeading then parseInt10 (drop 1 mappedRole)
                            else Some (orDefault (headingLevel tctx) 2));
                  level = (case parsed of
                             None \<Rightarrow> orDefault (headingLevel tctx) 2
                           | Some l \<Rightarrow> if l \<le> 0 then orDefault (headingLevel tctx) 2 else l)
              in if level \<le> 6 then (''h'' @ showInt level, None) else (''p'', Some level))
         else (tag0, None))"

definition listSelection ::
  "pdfContext \<Rightarrow> pdfObj option \<Rightarrow> pdfObj option \<Rightarrow> kids \<Rightarrow> pageRef option \<Rightarrow> string \<Rightarrow> string
     \<Rightarrow> traversalContext \<Rightarrow> string \<times> traversalContext \<times> int option \<times> string option" where
  \<comment> \<open>the chain on \<open>L\<close>, \<open>TOC\<close>, \<open>LI\<close>, \<open>Lbl\<close>, \<open>LBody\<close>: the tag, the context for the
      children, \<open>listStart\<close> and \<open>listType\<close>\<close>
  "listSelection cx attributes classes k inheritedPageRef mappedRole tag0 newCtx =
     (if mappedRole = ''L'' then
        (let numbering = (case getListNumbering cx attributes classes of Some n \<Rightarrow> n | None \<Rightarrow> ''None'');
             hasLbl = hasLblChildren cx k ''LI'';
             labelled = (hasLbl \<and> numbering \<noteq> ''None'' \<and> numbering \<noteq> ''Description'');
             labelText = getFirstListLabelText cx k inheritedPageRef
         in (if numbering = ''Description'' then ''dl''
             else if numbering \<noteq> ''None'' then ''ol'' else ''ul'',
             newCtx\<lparr>parentRole := Some ''L'', listNumbering := Some numbering, listHasLbl := hasLbl\<rparr>,
             if labelled then parseListStart labelText else None,
             if labelled then parseListType labelText else None))
      else if mappedRole = ''TOC'' then
        (tag0, newCtx\<lparr>parentRole := Some ''TOC'', listHasLbl := hasLblChildren cx k ''TOCI''\<rparr>, None, None)
      else if mappedRole = ''LI'' then
        (if listNumbering newCtx = Some ''Description'' then ''div'' else ''li'',
         newCtx\<lparr>parentRole := Some ''LI''\<rparr>, None, None)
      else if mappedRole = ''Lbl'' then
        (if parentRole newCtx = Some ''LI'' then
           (if listNumbering newCtx = Some ''Description'' then ''dt'' else ''span'')
         else if parentRole newCtx = Some ''Form'' then ''label''
         else ''span'',
         newCtx, None, None)
      else if mappedRole = ''LBody'' then
        (if parentRole newCtx = Some ''LI'' then
           (if listNumbering newCtx = Some ''Description'' then ''dd'' else ''div'')
         else ''div'',
         newCtx, None, None)
      else (tag0, newCtx\<lparr>parentRole := Some mappedRole\<rparr>, None, None))"

definition textPositionTag :: "pdfObj option \<Rightarrow> string \<Rightarrow> string \<Rightarrow> string" where
  "textPositionTag attributes mappedRole tag0 =
     (let textPositionName = nameOf (getAttribute attributes ''TextPosition'') in
      if textPositionName = Some ''Sup'' then (if mappedRole \<noteq> ''Sup'' then ''sup'' else tag0)
      else if textPositionName = Some ''Sub'' then (if mappedRole \<noteq> ''Sub'' then ''sub'' else tag0)
      else tag0)"

definition selectTag ::
  "pdfContext \<Rightarrow> dict \<Rightarrow> kids \<Rightarrow> pageRef option \<Rightarrow> traversalContext \<Rightarrow> traversalContext \<Rightarrow> string
     \<Rightarrow> tagSelection" where
  \<comment> \<open>from the namespace check to the setting of \<open>mathmlTokenContext\<close>; \<open>tctx\<close> is the
      context received, \<open>newCtx\<close> its copy with the bounding box updated\<close>
  "selectTag cx d k inheritedPageRef tctx newCtx sType =
     (let namespaceURI = getNamespaceURI cx d;
          attributes = dictGet d ''A'';
          classes = dictGet d ''C''
      in
      if namespaceURI = ''http://www.w3.org/1998/Math/MathML'' then
        \<lparr>selTag = sType, selRole = sType,
         selCtx = newCtx\<lparr>mathmlTokenContext := isMathMLTokenElement sType\<rparr>,
         selListStart = None, selListType = None, selAriaLevel = None\<rparr>
      else if namespaceURI = ''http://www.w3.org/1999/xhtml'' then
        \<lparr>selTag = toLowerCase sType, selRole = sType,
         selCtx = newCtx\<lparr>mathmlTokenContext := False\<rparr>,
         selListStart = None, selListType = None, selAriaLevel = None\<rparr>
      else
        let mappedRole = resolveRole sType (roleMapOf cx) namespaceURI;
            tag0 = mapRoleToTag mappedRole (parentRole tctx);
            ctx1 = (if isGroupingRole mappedRole
                    then newCtx\<lparr>headingLevel := Some (orDefault (headingLevel tctx) 1 + 1)\<rparr>
                    else newCtx);
            heading = headingTag mappedRole tctx tag0;
            chosen = listSelection cx attributes classes k inheritedPageRef mappedRole (fst heading) ctx1
        in \<lparr>selTag = textPositionTag attributes mappedRole (fst chosen), selRole = mappedRole,
            selCtx = (fst (snd chosen))\<lparr>mathmlTokenContext := False\<rparr>,
            selListStart = fst (snd (snd chosen)), selListType = snd (snd (snd chosen)),
            selAriaLevel = snd heading\<rparr>)"

section \<open>Attributes and wrapping of an element\<close>

definition attr :: "string \<Rightarrow> string \<Rightarrow> string" where
  \<comment> \<open>the template \<open>` name="${escapeHtml(value)}"`\<close>\<close>
  "attr name v = '' '' @ name @ ''=\"'' @ escapeHtml v @ ''\"''"

definition rawAttr :: "string \<Rightarrow> string \<Rightarrow> string" where
  \<comment> \<open>the template \<open>` name="${value}"`\<close>\<close>
  "rawAttr name v = '' '' @ name @ ''=\"'' @ v @ ''\"''"

definition optAttr :: "pdfContext \<Rightarrow> string \<Rightarrow> string option \<Rightarrow> string" where
  \<comment> \<open>\<open>if (v) attrs += ` name="${escapeHtml(stringToPDFString(v))}"`\<close>\<close>
  "optAttr cx name v = (case v of Some s \<Rightarrow> attr name (stringToPDFString cx s) | None \<Rightarrow> [])"

definition idAttr :: "pdfContext \<Rightarrow> pageRef option \<Rightarrow> nat \<Rightarrow> dict \<Rightarrow> idState \<Rightarrow> string \<times> idState" where
  "idAttr cx childRef oid d ids =
     (case strEntry d ''ID'' of
        Some ident \<Rightarrow> (attr ''id'' (stringToPDFString cx ident), ids)
      | None \<Rightarrow>
          (case ensureGeneratedId childRef oid ids of
             (generatedId, ids1) \<Rightarrow> (attr ''id'' generatedId, ids1)))"

definition classAttr :: "pdfContext \<Rightarrow> pdfObj option \<Rightarrow> string" where
  "classAttr cx classes =
     (if truthy classes \<and> intersperseStr '' '' (extractClassNames cx classes) \<noteq> []
      then attr ''class'' (intersperseStr '' '' (extractClassNames cx classes))
      else [])"

definition elementStyle :: "dict \<Rightarrow> tagSelection \<Rightarrow> traversalContext \<Rightarrow> string" where
  "elementStyle d sel tctx =
     (let style0 = getCSSProperties (dictGet d ''A'');
          style1 = (if (selRole sel = ''L'' \<or> selRole sel = ''TOC'') \<and> listHasLbl (selCtx sel)
                    then (if style0 \<noteq> [] then style0 @ '' list-style-type: none;''
                          else ''list-style-type: none'')
                    else style0);
          style2 = (if selRole sel = ''LBody'' \<and> listHasLbl tctx
                       \<and> listNumbering tctx \<noteq> Some ''Description''
                    then (if style1 \<noteq> [] then style1 @ '' display: inline-block; vertical-align: top;''
                          else ''display:inline-block; vertical-align: top;'')
                    else style1)
      in if selRole sel = ''Lbl'' \<and> parentRole tctx = Some ''LI''
            \<and> listNumbering tctx \<noteq> Some ''Description''
         then (if style2 \<noteq> []
               then style2 @ '' display: inline-block; vertical-align: top; margin-right: 0.4em;''
               else ''display:inline-block; vertical-align: top; margin-right: 0.4em;'')
         else style2)"

definition elementAttrs ::
  "pdfContext \<Rightarrow> pageRef option \<Rightarrow> nat \<Rightarrow> dict \<Rightarrow> string \<Rightarrow> tagSelection \<Rightarrow> traversalContext \<Rightarrow> idState
     \<Rightarrow> string \<times> idState" where
  \<comment> \<open>the attribute string of an element other than a link, in the order it is built\<close>
  "elementAttrs cx childRef oid d sType sel tctx ids =
     (let attributes = dictGet d ''A'';
          isOl = (selRole sel = ''L'' \<and> selTag sel = ''ol'');
          ident = idAttr cx childRef oid d ids;
          style = elementStyle d sel tctx
      in (getHTMLAttributes attributes
          @ (if selRole sel \<noteq> [] then attr ''data-pdf-se-type'' (selRole sel) else [])
          @ (if sType \<noteq> selRole sel then attr ''data-pdf-se-type-original'' sType else [])
          @ (case selAriaLevel sel of
               Some level \<Rightarrow> '' role=\"heading\" aria-level=\"'' @ showInt level @ ''\"''
             | None \<Rightarrow> [])
          @ fst ident
          @ optAttr cx ''lang'' (strEntry d ''Lang'')
          @ optAttr cx ''alt'' (strEntry d ''Alt'')
          @ optAttr cx ''title'' (strEntry d ''T'')
          @ (case nonEmpty (getPronunciationHint cx attributes) of
               Some hint \<Rightarrow> attr ''data-pdf-pronunciation'' hint
             | None \<Rightarrow> [])
          @ (case getAttribute attributes ''ContinuedFrom'' of
               Some continuedFrom \<Rightarrow>
                 if isOl then attr ''data-continued-from'' (jsString continuedFrom) else []
             | None \<Rightarrow> [])
          @ (case selListStart sel of
               Some listStart \<Rightarrow> if isOl \<and> 1 < listStart then rawAttr ''start'' (showInt listStart) else []
             | None \<Rightarrow> [])
          @ (case selListType sel of
               Some listType \<Rightarrow> if isOl then rawAttr ''type'' listType else []
             | None \<Rightarrow> [])
          @ classAttr cx (dictGet d ''C'')
          @ (if style \<noteq> [] then attr ''style'' style else []),
          snd ident))"

definition wrapExpansion :: "pdfContext \<Rightarrow> dict \<Rightarrow> string \<Rightarrow> string" where
  \<comment> \<open>expansion text wraps the content in \<open>abbr\<close>\<close>
  "wrapExpansion cx d content =
     (case strEntry d ''E'' of
        Some expansionText \<Rightarrow>
          ''<abbr title=\"'' @ escapeHtml (stringToPDFString cx expansionText) @ ''\">'' @ content @ ''</abbr>''
      | None \<Rightarrow> content)"

definition joinSupplements :: "string list \<Rightarrow> string" where
  \<comment> \<open>\<open>supplements.join("\n")\<close>, appended only when there are supplements\<close>
  "joinSupplements supplements = intersperseStr [CHR 0x0A] supplements"

definition finishElement ::
  "pdfContext \<Rightarrow> dict \<Rightarrow> tagSelection \<Rightarrow> string \<Rightarrow> string list \<Rightarrow> renderedContent \<Rightarrow> renderedContent" where
  \<comment> \<open>from the expansion text to the returned markup, given the content of the element\<close>
  "finishElement cx d sel attrs supplements inner =
     (let content = wrapExpansion cx d (html inner) @ joinSupplements supplements;
          tag = selTag sel
      in if selRole sel = ''NonStruct'' then \<lparr>html = content, text' = text' inner, rootTag = None\<rparr>
         else if selRole sel = ''Private'' \<or> selRole sel = ''Artifact'' then emptyRendered
         else if tag = ''img'' \<or> tag = ''br'' \<or> tag = ''hr'' \<or> tag = ''input'' then
           \<lparr>html = ''<'' @ tag @ attrs @ ''/>'', text' = [], rootTag = Some tag\<rparr>
         else
           \<lparr>html = ''<'' @ tag @ attrs @ ''>'' @ content @ ''</'' @ tag @ ''>'',
            text' = text' inner, rootTag = Some tag\<rparr>)"

definition actualTextContent :: "pdfContext \<Rightarrow> string \<Rightarrow> renderedContent" where
  \<comment> \<open>the content of an element that has an actual-text override\<close>
  "actualTextContent cx actualText =
     \<lparr>html = escapeHtml (stringToPDFString cx actualText), text' = stringToPDFString cx actualText,
      rootTag = None\<rparr>"

definition linkAttrs ::
  "pdfContext \<Rightarrow> pageRef option \<Rightarrow> nat \<Rightarrow> dict \<Rightarrow> string \<Rightarrow> idState \<Rightarrow> string \<times> idState" where
  \<comment> \<open>the attribute string of \<open>processLink\<close>, given the resolved \<open>href\<close>\<close>
  "linkAttrs cx childRef oid d href ids =
     (let attributes = dictGet d ''A'';
          mappedRole = (case structType d of
                          Some s \<Rightarrow> resolveRole s (roleMapOf cx) (getNamespaceURI cx d)
                        | None \<Rightarrow> []);
          ident = idAttr cx childRef oid d ids;
          style = getCSSProperties attributes
      in (getHTMLAttributes attributes
          @ (if mappedRole \<noteq> [] then attr ''data-pdf-se-type'' mappedRole else [])
          @ (case structType d of
               Some s \<Rightarrow> if s \<noteq> mappedRole then attr ''data-pdf-se-type-original'' s else []
             | None \<Rightarrow> [])
          @ (if href \<noteq> [] then attr ''href'' href else [])
          @ fst ident
          @ optAttr cx ''lang'' (strEntry d ''Lang'')
          @ optAttr cx ''title'' (strEntry d ''T'')
          @ (case nonEmpty (getPronunciationHint cx attributes) of
               Some hint \<Rightarrow> attr ''data-pdf-pronunciation'' hint
             | None \<Rightarrow> [])
          @ classAttr cx (dictGet d ''C'')
          @ (if style \<noteq> [] then attr ''style'' style else []),
          snd ident))"

definition finishLink :: "pdfContext \<Rightarrow> dict \<Rightarrow> string \<Rightarrow> renderedContent \<Rightarrow> renderedContent" where
  "finishLink cx d attrs inner =
     \<lparr>html = ''<a'' @ attrs @ ''>'' @ wrapExpansion cx d (html inner) @ ''</a>'',
      text' = text' inner, rootTag = Some ''a''\<rparr>"


section \<open>The traversal\<close>

definition getStructureAssociatedFiles :: "pdfContext \<Rightarrow> dict \<Rightarrow> string option \<times> string list" where
  \<comment> \<open>(replacement, supplements); an element without an \<open>AF\<close> entry has neither\<close>
  "getStructureAssociatedFiles cx d =
     (case dictGet d ''AF'' of
        Some af \<Rightarrow> if truthy (Some af) then processAssociatedFiles cx af else (None, [])
      | None \<Rightarrow> (None, []))"


definition inheritBox :: "dict \<Rightarrow> traversalContext \<Rightarrow> traversalContext" where
  \<comment> \<open>\<open>{ ...traversalCtx, bbox: bbox || traversalCtx.bbox }\<close>\<close>
  "inheritBox d tctx =
     tctx\<lparr>bbox := (case getBBox (dictGet d ''A'') of Some b \<Rightarrow> Some b | None \<Rightarrow> bbox tctx)\<rparr>"

text \<open>
  What \<open>processStructElement\<close> does with a dictionary child up to the point where it
  descends into the children: either the result is already known, or the children are
  rendered with a page reference, a context and an identifier table, and the rendered
  children are turned into the result.
\<close>

datatype plan =
    Done renderedContent idState
  | Descend "pageRef option" traversalContext idState "renderedContent \<Rightarrow> renderedContent"

definition planLink ::
  "pdfContext \<Rightarrow> pageRef option \<Rightarrow> nat \<Rightarrow> dict \<Rightarrow> kids \<Rightarrow> pageRef option \<Rightarrow> traversalContext \<Rightarrow> idState \<Rightarrow> plan" where
  \<comment> \<open>\<open>processLink\<close>\<close>
  "planLink cx childRef oid d k inheritedPageRef tctx ids =
     (case resolveLinkHref cx d k ids of (href, ids1) \<Rightarrow>
        (case linkAttrs cx childRef oid d href ids1 of (attrs, ids2) \<Rightarrow>
           (case strEntry d ''ActualText'' of
              Some actualText \<Rightarrow> Done (finishLink cx d attrs (actualTextContent cx actualText)) ids2
            | None \<Rightarrow> Descend inheritedPageRef tctx ids2 (finishLink cx d attrs))))"

definition planTyped ::
  "pdfContext \<Rightarrow> pageRef option \<Rightarrow> nat \<Rightarrow> dict \<Rightarrow> kids \<Rightarrow> pageRef option \<Rightarrow> traversalContext
     \<Rightarrow> traversalContext \<Rightarrow> string list \<Rightarrow> string \<Rightarrow> idState \<Rightarrow> plan" where
  \<comment> \<open>an element with a structure type \<open>sType\<close>\<close>
  "planTyped cx childRef oid d k inheritedPageRef tctx newCtx supplements sType ids =
     (let sel = selectTag cx d k inheritedPageRef tctx newCtx sType in
      if selRole sel = ''Reference'' \<and> hasLinkChild cx k then
        (if falsyKids k then Done emptyRendered ids
         else Descend inheritedPageRef ((selCtx sel)\<lparr>parentRole := parentRole tctx\<rparr>) ids (\<lambda>inner. inner))
      else if selRole sel = ''Link'' then
        planLink cx childRef oid d k inheritedPageRef (selCtx sel) ids
      else
        case elementAttrs cx childRef oid d sType sel tctx ids of (attrs, ids1) \<Rightarrow>
          let isFigure = (selRole sel = ''Figure'' \<or> selRole sel = ''Formula'');
              altStr = (case strEntry d ''Alt'' of Some a \<Rightarrow> stringToPDFString cx a | None \<Rightarrow> []);
              ctx1 = (if isFigure then (selCtx sel)\<lparr>preferVector := True\<rparr> else selCtx sel);
              ctx2 = (if isFigure \<and> altStr \<noteq> [] then ctx1\<lparr>imageAlt := Some altStr\<rparr> else ctx1)
          in (case strEntry d ''ActualText'' of
                Some actualText \<Rightarrow>
                  Done (finishElement cx d sel attrs supplements (actualTextContent cx actualText)) ids1
              | None \<Rightarrow> Descend inheritedPageRef ctx2 ids1 (finishElement cx d sel attrs supplements)))"

definition planElement ::
  "pdfContext \<Rightarrow> pageRef option \<Rightarrow> nat \<Rightarrow> dict \<Rightarrow> kids \<Rightarrow> pageRef option \<Rightarrow> traversalContext \<Rightarrow> idState \<Rightarrow> plan" where
  "planElement cx childRef oid d k inherited tctx ids =
     (let inheritedPageRef = orPage (getRawPg d) inherited;
          typeName = nameOf (dictGet d ''Type'')
      in
      if typeName = Some ''MCR'' then
        Done (processMCR cx d inheritedPageRef (bbox tctx) (imageAlt tctx) (preferVector tctx)
                (mathmlTokenContext tctx)) ids
      else if typeName = Some ''OBJR'' then Done (processOBJR cx d inheritedPageRef) ids
      else
        (case getStructureAssociatedFiles cx d of (replacement, supplements) \<Rightarrow>
           (case replacement of
              Some out \<Rightarrow>
                Done \<lparr>html = out @ joinSupplements supplements, text' = extractTextFromHtml cx out,
                      rootTag = None\<rparr> ids
            | None \<Rightarrow>
                (case structType d of
                   None \<Rightarrow>
                     if falsyKids k
                     then Done \<lparr>html = joinSupplements supplements, text' = [], rootTag = None\<rparr> ids
                     else Descend inheritedPageRef (inheritBox d tctx) ids
                            (\<lambda>inner. \<lparr>html = html inner @ joinSupplements supplements,
                                       text' = text' inner, rootTag = None\<rparr>)
                 | Some sType \<Rightarrow>
                     planTyped cx childRef oid d k inheritedPageRef tctx (inheritBox d tctx)
                       supplements sType ids))))"

definition appendChild ::
  "pdfContext \<Rightarrow> traversalContext \<Rightarrow> structChild \<Rightarrow> renderedContent \<Rightarrow> string \<times> string \<times> bool
     \<Rightarrow> string \<times> string \<times> bool" where
  \<comment> \<open>the body of the loop of \<open>processChildren\<close> after the child is rendered: the state is
      (html, text, lastChildHadActualText)\<close>
  "appendChild cx tctx c childRendered acc =
     (case acc of (h, t, lastChildHadActualText) \<Rightarrow>
        let childRole = fst (getElementInfo cx c);
            hasActualText = snd (getElementInfo cx c)
        in if parentRole tctx = Some ''L'' then
             (if childRole = Some ''L''
              then (h @ ''<li>'' @ html childRendered @ ''</li>'', t @ text' childRendered, hasActualText)
              else (h @ html childRendered, t @ text' childRendered, hasActualText))
           else if shouldInsertInlineSpace (parentRole tctx) childRole t (text' childRendered)
                     lastChildHadActualText hasActualText (rootTag childRendered)
           then (h @ '' '' @ html childRendered, t @ '' '' @ text' childRendered, hasActualText)
           else (h @ html childRendered, t @ text' childRendered, hasActualText))"

lemma size_list_reorderCaptionElements:
  "size_list f (reorderCaptionElements cx cs) = size_list f cs"
  unfolding reorderCaptionElements_def by (induction cs) auto

function processStructElement ::
    "pdfContext \<Rightarrow> structChild \<Rightarrow> pageRef option \<Rightarrow> traversalContext \<Rightarrow> idState \<Rightarrow> renderedContent \<times> idState"
  and processChildren ::
    "pdfContext \<Rightarrow> kids \<Rightarrow> pageRef option \<Rightarrow> traversalContext \<Rightarrow> idState \<Rightarrow> renderedContent \<times> idState"
  and processChildList ::
    "pdfContext \<Rightarrow> structChild list \<Rightarrow> pageRef option \<Rightarrow> traversalContext \<Rightarrow> string \<times> string \<times> bool
       \<Rightarrow> idState \<Rightarrow> renderedContent \<times> idState" where
  "processStructElement cx ChildNull inheritedPageRef tctx ids = (emptyRendered, ids)"
| "processStructElement cx (ChildNum n) inheritedPageRef tctx ids =
     (case inheritedPageRef of
        Some pg \<Rightarrow>
          (processMCID cx n pg (bbox tctx) (imageAlt tctx) (preferVector tctx) (mathmlTokenContext tctx), ids)
      | None \<Rightarrow>
          (\<lparr>html = ''<!-- MCID '' @ showInt n @ '' (No Page) -->'', text' = [], rootTag = None\<rparr>, ids))"
| "processStructElement cx (ChildDict childRef oid d k) inheritedPageRef tctx ids =
     (case planElement cx childRef oid d k inheritedPageRef tctx ids of
        Done result ids1 \<Rightarrow> (result, ids1)
      | Descend pg newCtx ids1 finish \<Rightarrow>
          (case processChildren cx k pg newCtx ids1 of (inner, ids2) \<Rightarrow> (finish inner, ids2)))"
| "processChildren cx KNone inheritedPageRef tctx ids = (emptyRendered, ids)"
| "processChildren cx (KOne c) inheritedPageRef tctx ids =
     (if falsyChild c then (emptyRendered, ids)
      else case processStructElement cx c inheritedPageRef tctx ids of
             (childRendered, ids1) \<Rightarrow>
               (\<lparr>html = html childRendered, text' = text' childRendered, rootTag = None\<rparr>, ids1))"
| "processChildren cx (KArr cs) inheritedPageRef tctx ids =
     processChildList cx (reorderCaptionElements cx cs) inheritedPageRef tctx ([], [], False) ids"
| "processChildList cx [] inheritedPageRef tctx acc ids =
     (\<lparr>html = fst acc, text' = fst (snd acc), rootTag = None\<rparr>, ids)"
| "processChildList cx (c # cs) inheritedPageRef tctx acc ids =
     (case processStructElement cx c inheritedPageRef tctx ids of
        (childRendered, ids1) \<Rightarrow>
          processChildList cx cs inheritedPageRef tctx (appendChild cx tctx c childRendered acc) ids1)"
  by pat_completeness auto
termination
  by (relation "measure (\<lambda>x. case x of
          Inl (cx, c, rest) \<Rightarrow> size c
        | Inr (Inl (cx, k, rest)) \<Rightarrow> size k
        | Inr (Inr (cx, cs, rest)) \<Rightarrow> size_list size cs)")
     (auto simp: size_list_reorderCaptionElements)

definition initialContext :: traversalContext where
  \<comment> \<open>\<open>{ headingLevel: 1, idState }\<close>\<close>
  "initialContext =
     \<lparr>parentRole = None, listNumbering = None, listHasLbl = False, bbox = None,
      headingLevel = Some 1, imageAlt = None, preferVector = False, mathmlTokenContext = False\<rparr>"

definition initialIdState :: idState where
  "initialIdState = \<lparr>byRef = Map.empty, byDict = Map.empty, counter = 1\<rparr>"

definition traverseStructure :: "pdfContext \<Rightarrow> string" where
  "traverseStructure cx =
     (case structTreeRoot cx of
        None \<Rightarrow> []
      | Some root \<Rightarrow> html (fst (processChildren cx (treeK root) None initialContext initialIdState)))"

section \<open>Example inputs\<close>





definition exampleContext :: "kids \<Rightarrow> roleMap option \<Rightarrow> contentExtractor \<Rightarrow> pdfContext" where
  \<comment> \<open>a document with the given root children and role map, whose pages all have the given
      extracted content; strings decode to themselves, and there are no associated files,
      object references or link targets\<close>
  "exampleContext k rm ex =
     \<lparr>structTreeRoot = Some \<lparr>treeK = k, treeRoleMap = rm, treeClassMap = None\<rparr>,
      stringToPDFString = (\<lambda>s. s),
      getPageIndex = (\<lambda>r. 0),
      pageExtractor = (\<lambda>i. ex),
      processAssociatedFiles = (\<lambda>af. (None, [])),
      processOBJR = (\<lambda>d p. emptyRendered),
      resolveLinkHref = (\<lambda>d k ids. ([], ids)),
      imageMarkup = (\<lambda>img b a p. []),
      renderVectorGraphics = (\<lambda>ops b. []),
      extractTextFromHtml = (\<lambda>s. s)\<rparr>"

definition elem :: "nat \<Rightarrow> string \<Rightarrow> kids \<Rightarrow> structChild" where
  \<comment> \<open>a structure element given directly, with a structure type and children only\<close>
  "elem oid s k = ChildDict None oid [(''S'', PName s)] k"

section \<open>Properties of the role resolver\<close>

lemma resolveRoleLoop_steps:
  "snd (snd (resolveRoleLoop rm current seen n)) \<le> n + card (dom (map_of rm) - set seen)"
proof (induction rm current seen n rule: resolveRoleLoop.induct)
  case (1 rm current seen n)
  show ?case
  proof (cases "map_of rm current")
    case None
    then show ?thesis by simp
  next
    case (Some nxt)
    have fin: "finite (dom (map_of rm) - set seen)"
      by (simp add: finite_dom_map_of)
    show ?thesis
    proof (cases "current \<in> set seen")
      case True
      with Some show ?thesis by simp
    next
      case False
      then have mem: "current \<in> dom (map_of rm) - set seen"
        using Some by auto
      have eq: "dom (map_of rm) - set (current # seen) = (dom (map_of rm) - set seen) - {current}"
        by auto
      have less: "card (dom (map_of rm) - set (current # seen)) < card (dom (map_of rm) - set seen)"
        using card_Diff1_less [OF fin mem] eq by simp
      show ?thesis
      proof (cases "nxt = []")
        case True
        with Some False show ?thesis by simp
      next
        case nonempty: False
        show ?thesis
        proof (cases "isStandardType nxt")
          case True
          with Some False nonempty less show ?thesis by simp
        next
          case nonstd: False
          have "snd (snd (resolveRoleLoop rm nxt (current # seen) (Suc n)))
                  \<le> Suc n + card (dom (map_of rm) - set (current # seen))"
            using "1.IH" [OF Some False nonempty nonstd] .
          with less Some False nonempty nonstd show ?thesis by simp
        qed
      qed
    qed
  qed
qed

lemma resolveRoleLoop_stop:
  "(let r = fst (resolveRoleLoop rm current seen n);
        seen' = fst (snd (resolveRoleLoop rm current seen n))
    in isStandardType r \<or> map_of rm r = None \<or> map_of rm r = Some [] \<or> r \<in> set seen')"
proof (induction rm current seen n rule: resolveRoleLoop.induct)
  case (1 rm current seen n)
  show ?case
  proof (cases "map_of rm current")
    case None
    then show ?thesis by simp
  next
    case (Some nxt)
    show ?thesis
    proof (cases "current \<in> set seen")
      case True
      with Some show ?thesis by simp
    next
      case False
      show ?thesis
      proof (cases "nxt = []")
        case True
        with Some False show ?thesis by simp
      next
        case nonempty: False
        show ?thesis
        proof (cases "isStandardType nxt")
          case True
          with Some False nonempty show ?thesis by simp
        next
          case nonstd: False
          show ?thesis
            using "1.IH" [OF Some False nonempty nonstd] Some False nonempty nonstd
            by (simp add: Let_def)
        qed
      qed
    qed
  qed
qed

lemma card_dom_map_of_le: "card (dom (map_of rm)) \<le> length rm"
proof -
  have "card (dom (map_of rm)) = card (fst ` set rm)"
    by (simp add: dom_map_of_conv_image_fst)
  also have "\<dots> \<le> card (set rm)"
    by (rule card_image_le) simp
  also have "\<dots> \<le> length rm"
    by (rule card_length)
  finally show ?thesis .
qed

text \<open>
  C8. The loop of \<open>resolveRole\<close> is a total function (its termination is proved above for
  every role map, cyclic ones included), and for a role map with N entries a call performs at
  most N replacement steps. At loop exit the current value is a standard type, or has no
  (or an empty) mapping, or is a value already seen.
\<close>

theorem resolveRole_at_most_N_steps:
  "resolveRoleSteps role (Some rm) namespaceURI \<le> card (dom (map_of rm))
   \<and> card (dom (map_of rm)) \<le> length rm
   \<and> resolveRoleSteps role None namespaceURI = 0
   \<and> (let r = fst (resolveRoleLoop rm role [] 0);
           seen' = fst (snd (resolveRoleLoop rm role [] 0))
       in isStandardType r \<or> map_of rm r = None \<or> map_of rm r = Some [] \<or> r \<in> set seen')"
proof -
  have "snd (snd (resolveRoleLoop rm role [] 0)) \<le> card (dom (map_of rm))"
    using resolveRoleLoop_steps [of rm role "[]" 0] by simp
  then have "resolveRoleSteps role (Some rm) namespaceURI \<le> card (dom (map_of rm))"
    by (simp add: resolveRoleSteps_def)
  moreover have "resolveRoleSteps role None namespaceURI = 0"
    by (simp add: resolveRoleSteps_def)
  ultimately show ?thesis
    using card_dom_map_of_le [of rm] resolveRoleLoop_stop [of rm role "[]" 0] by simp
qed


section \<open>Properties of the attribute cascade\<close>

lemma map_of_mapSet: "map_of (mapSet k v m) = (map_of m)(k \<mapsto> v)"
  by (induction m) auto

lemma map_of_applyWrite:
  "map_of (applyWrite w m) = map_of m ++ map_of (applyWrite w [])"
  by (cases w) (auto simp: applyWrite_def map_of_mapSet)

lemma map_of_runWrites:
  "map_of (runWrites ws m) = map_of m ++ map_of (runWrites ws [])"
proof (induction ws arbitrary: m)
  case Nil
  show ?case by (simp add: runWrites_def)
next
  case (Cons w ws)
  have step: "runWrites (w # ws) m' = runWrites ws (applyWrite w m')" for m'
    by (simp add: runWrites_def)
  have "map_of (runWrites (w # ws) m) = map_of (applyWrite w m) ++ map_of (runWrites ws [])"
    using Cons.IH [of "applyWrite w m"] step by simp
  also have "\<dots> = map_of m ++ (map_of (applyWrite w []) ++ map_of (runWrites ws []))"
    using map_of_applyWrite [of w m] by simp
  also have "map_of (applyWrite w []) ++ map_of (runWrites ws []) = map_of (runWrites (w # ws) [])"
    using Cons.IH [of "applyWrite w []"] step by simp
  finally show ?case .
qed

lemma map_of_processLayoutCSSProperties:
  "map_of (processLayoutCSSProperties d m) = map_of m ++ map_of (processLayoutCSSProperties d [])"
  unfolding processLayoutCSSProperties_def by (rule map_of_runWrites)

lemma map_of_fold_layout:
  "map_of (fold processLayoutCSSProperties ds m)
     = map_of m ++ map_of (fold processLayoutCSSProperties ds [])"
proof (induction ds arbitrary: m)
  case Nil
  show ?case by simp
next
  case (Cons d ds)
  have "map_of (fold processLayoutCSSProperties (d # ds) m)
          = map_of (processLayoutCSSProperties d m) ++ map_of (fold processLayoutCSSProperties ds [])"
    using Cons.IH [of "processLayoutCSSProperties d m"] by simp
  also have "\<dots> = map_of m ++ (map_of (processLayoutCSSProperties d [])
                ++ map_of (fold processLayoutCSSProperties ds []))"
    using map_of_processLayoutCSSProperties [of d m] by simp
  also have "map_of (processLayoutCSSProperties d []) ++ map_of (fold processLayoutCSSProperties ds [])
          = map_of (fold processLayoutCSSProperties (d # ds) [])"
    using Cons.IH [of "processLayoutCSSProperties d []"] by simp
  finally show ?case .
qed

lemma css_cascade:
  "map_of (cssMapOf attributes) =
      map_of (processCSSFromList (ofCategory cssCategory CatList (attrList attributes)) [])
      ++ map_of (processCSSFromLayout (ofCategory cssCategory CatLayout (attrList attributes)) [])
      ++ map_of (processCSSFromCSS (ofCategory cssCategory CatCSS (attrList attributes)) [])"
  unfolding cssMapOf_def Let_def processCSSFromCSS_def processCSSFromLayout_def processCSSFromTable_def
  by (metis map_of_fold_layout)

lemma html_cascade:
  "map_of (htmlAttrMap attributes) =
      map_of (processListAttributes (ofCategory htmlCategory CatList (attrList attributes)) [])
      ++ map_of (processTableAttributes (ofCategory htmlCategory CatTable (attrList attributes)
                    @ ofCategory htmlCategory CatUnknown (attrList attributes)) [])
      ++ map_of (processLayoutAttributesForHTML (ofCategory htmlCategory CatLayout (attrList attributes)) [])
      ++ map_of (processHTMLAttributes (ofCategory htmlCategory CatHTML (attrList attributes)) [])
      ++ map_of (processARIAAttributes (ofCategory htmlCategory CatARIA (attrList attributes)) [])"
  unfolding htmlAttrMap_def Let_def processCSSAttributesForHTML_def
    processARIAAttributes_def processHTMLAttributes_def processLayoutAttributesForHTML_def
    processTableAttributes_def processListAttributes_def
  by (metis map_of_runWrites)

lemma last_guarded_write_wins:
  "map_of (runWrites ws m) k =
     (case filter (\<lambda>w. fst w \<and> fst (snd w) = k) ws of
        [] \<Rightarrow> map_of m k
      | w # ws' \<Rightarrow> Some (snd (snd (last (w # ws')))))"
proof (induction ws arbitrary: m)
  case Nil
  show ?case by (simp add: runWrites_def)
next
  case (Cons w ws)
  have step: "runWrites (w # ws) m = runWrites ws (applyWrite w m)"
    by (simp add: runWrites_def)
  show ?case
    unfolding step Cons.IH
    by (cases w) (auto simp: applyWrite_def map_of_mapSet split: list.splits)
qed

text \<open>
  C6, as the claim states it, fails. A Layout dictionary with \<open>SpaceBefore\<close> and a
  \<open>Placement\<close> of \<open>Inline\<close> resolves to \<open>display: inline\<close>, and so does a Layout
  \<open>SpaceBefore\<close> followed by a CSS-category \<open>Placement\<close> of \<open>Inline\<close>: the block display set
  by the margin-implying property is downgraded.
\<close>

theorem display_block_is_downgraded:
  "getCSSProperties (Some (PDict [(''O'', PName ''Layout''), (''SpaceBefore'', PNum 12),
                                  (''Placement'', PName ''Inline'')]))
     = ''display: inline; margin-top: 12px; ''
   \<and> getCSSProperties (Some (PArr
         [PDict [(''O'', PName ''Layout''), (''SpaceBefore'', PNum 12)],
          PDict [(''O'', PName ''CSS-1.00''), (''Placement'', PName ''Inline'')]]))
     = ''display: inline; margin-top: 12px; ''"
  by code_simp

text \<open>
  C6, amended. In both output maps every key ends with the value written by the latest
  category that writes it, in the order List, Table, Layout, (HTML,) CSS, (ARIA): the
  resolved map is the right-biased union of what each category writes on its own. Within
  one dictionary the last statement that writes a key decides it. There is no exception for
  \<open>display\<close>: it is a key like the others. A Layout \<open>TextAlign\<close> of \<open>Center\<close> with a
  CSS-category \<open>TextAlign\<close> of \<open>Right\<close> resolves to \<open>text-align: right\<close>.
\<close>

theorem cascade_last_writer_wins:
  "map_of (cssMapOf attributes) =
      map_of (processCSSFromList (ofCategory cssCategory CatList (attrList attributes)) [])
      ++ map_of (processCSSFromLayout (ofCategory cssCategory CatLayout (attrList attributes)) [])
      ++ map_of (processCSSFromCSS (ofCategory cssCategory CatCSS (attrList attributes)) [])
   \<and> map_of (htmlAttrMap attributes) =
      map_of (processListAttributes (ofCategory htmlCategory CatList (attrList attributes)) [])
      ++ map_of (processTableAttributes (ofCategory htmlCategory CatTable (attrList attributes)
                    @ ofCategory htmlCategory CatUnknown (attrList attributes)) [])
      ++ map_of (processLayoutAttributesForHTML (ofCategory htmlCategory CatLayout (attrList attributes)) [])
      ++ map_of (processHTMLAttributes (ofCategory htmlCategory CatHTML (attrList attributes)) [])
      ++ map_of (processARIAAttributes (ofCategory htmlCategory CatARIA (attrList attributes)) [])
   \<and> map_of (processLayoutCSSProperties d m) k =
       (case filter (\<lambda>w. fst w \<and> fst (snd w) = k) (layoutSteps d) of
          [] \<Rightarrow> map_of m k
        | w # ws' \<Rightarrow> Some (snd (snd (last (w # ws')))))
   \<and> getCSSProperties (Some (PArr
         [PDict [(''O'', PName ''Layout''), (''TextAlign'', PName ''Center'')],
          PDict [(''O'', PName ''CSS-1.00''), (''TextAlign'', PName ''Right'')]]))
     = ''text-align: right; ''"
proof -
  have example: "getCSSProperties (Some (PArr
         [PDict [(''O'', PName ''Layout''), (''TextAlign'', PName ''Center'')],
          PDict [(''O'', PName ''CSS-1.00''), (''TextAlign'', PName ''Right'')]]))
     = ''text-align: right; ''"
    by code_simp
  have within: "map_of (processLayoutCSSProperties d m) k =
       (case filter (\<lambda>w. fst w \<and> fst (snd w) = k) (layoutSteps d) of
          [] \<Rightarrow> map_of m k
        | w # ws' \<Rightarrow> Some (snd (snd (last (w # ws')))))"
    unfolding processLayoutCSSProperties_def by (rule last_guarded_write_wins)
  show ?thesis
    by (rule conjI [OF css_cascade conjI [OF html_cascade conjI [OF within example]]])
qed


section \<open>Properties of the content extraction\<close>











section \<open>Properties of marked-content leaves\<close>







section \<open>Properties of the traversal\<close>












section \<open>Heading roles with a numeral\<close>

lemma explicitHeadingRe_rejects_digits:
  "list_all isDigitChar ds \<Longrightarrow> \<not> explicitHeadingRe (CHR ''H'' # ds)"
  by (auto simp: explicitHeadingRe_def isDigitChar_def split: list.splits)

lemma resolveRole_standard_identity:
  "isPdfStandardNamespace namespaceURI \<Longrightarrow> isStandardType role
     \<Longrightarrow> resolveRole role roleMap namespaceURI = role"
  by (simp add: resolveRole_def)

lemma generic_heading_in_table_cell:
  assumes "mappedRole = ''H'' \<or> mappedRole = ''Hn'' \<or> mappedRole = ''Title''"
    and "parentRole tctx = Some ''TH'' \<or> parentRole tctx = Some ''TD''"
  shows "headingTag mappedRole tctx tag0 = (''p'', None)"
  using assms by (auto simp: headingTag_def Let_def)

lemma generic_heading_level:
  assumes "parentRole tctx \<noteq> Some ''TH''" and "parentRole tctx \<noteq> Some ''TD''"
    and "headingLevel tctx = Some n" and "0 < n"
  shows "headingTag ''H'' tctx tag0 = (if n \<le> 6 then (''h'' @ showInt n, None) else (''p'', Some n))"
  using assms by (simp add: headingTag_def Let_def explicitHeadingRe_def orDefault_def)

text \<open>
  C4. The pattern that is to accept \<open>H\<close> followed by digits is written \<open>/^H\\d+$/\<close> in
  \<open>isStandardType\<close>: it matches \<open>H\<close>, a backslash and letters \<open>d\<close>, so \<open>H7\<close> is not a
  standard type for the code, and a role map that maps \<open>H7\<close> is followed.
\<close>

theorem h7_is_resolved_through_role_map:
  "\<not> isStandardType ''H7''
   \<and> resolveRole ''H7'' (Some [(''H7'', ''P'')]) [] = ''P''"
  by code_simp

text \<open>
  C2. The same pattern decides \<open>isExplicitHeading\<close> in \<open>processStructElement\<close>, so \<open>H1\<close> is
  not taken for a heading there and the table-cell guard is skipped: an \<open>H1\<close> whose parent
  is \<open>TD\<close> renders as \<open>h1\<close>.
\<close>

theorem h1_in_table_cell_renders_h1:
  "traverseStructure
     (exampleContext (KOne (elem 1 ''TD'' (KOne (elem 2 ''H1'' KNone)))) None newContentExtractor)
   = ''<td data-pdf-se-type=\"TD\" id=\"pdf-se-1\">''
     @ ''<h1 data-pdf-se-type=\"H1\" id=\"pdf-se-2\"></h1></td>''"
  by code_simp

text \<open>
  C3. A generic \<open>H\<close> under two \<open>Sect\<close> elements renders as \<open>h3\<close>, and a generic \<open>H\<close> at
  inherited depth 9 renders as \<open>p\<close> with \<open>role="heading" aria-level="9"\<close>; an explicit
  \<open>H9\<close> is not taken for a heading and renders as \<open>div\<close>.
\<close>

theorem explicit_h9_renders_div:
  "traverseStructure (exampleContext (KOne (elem 1 ''H9'' KNone)) None newContentExtractor)
     = ''<div data-pdf-se-type=\"H9\" id=\"pdf-se-1\"></div>''
   \<and> traverseStructure
       (exampleContext (KOne (elem 1 ''Sect'' (KOne (elem 2 ''Sect'' (KOne (elem 3 ''H'' KNone))))))
          None newContentExtractor)
     = ''<section data-pdf-se-type=\"Sect\" id=\"pdf-se-1\">''
       @ ''<section data-pdf-se-type=\"Sect\" id=\"pdf-se-2\">''
       @ ''<h3 data-pdf-se-type=\"H\" id=\"pdf-se-3\"></h3></section></section>''
   \<and> html (fst (processStructElement (exampleContext KNone None newContentExtractor)
         (elem 1 ''H'' KNone) None (initialContext\<lparr>headingLevel := Some 9\<rparr>) initialIdState))
     = ''<p data-pdf-se-type=\"H\" role=\"heading\" aria-level=\"9\" id=\"pdf-se-1\"></p>''"
  by code_simp

section \<open>The result of the traversal and the escaping of document strings\<close>

text \<open>
  C1. \<open>traverseStructure\<close> returns the markup of the root's children, a string; the
  traversal builds no index from element identifiers to content ids. For a paragraph that
  owns content id 5 the result is the markup alone.
\<close>

theorem traverseStructure_returns_markup_only:
  "traverseStructure
     (exampleContext
        (KOne (ChildDict None 1 [(''S'', PName ''P''), (''Pg'', PRef 1 0)] (KOne (ChildNum 5))))
        None (newContentExtractor\<lparr>mcidToText := [5 \<mapsto> ''Hi'']\<rparr>))
   = ''<p data-pdf-se-type=\"P\" id=\"pdf-se-1\">Hi</p>''"
  by code_simp

lemma replaceAll_set:
  "set (replaceAll c rep s) = (set s - {c}) \<union> (if c \<in> set s then set rep else {})"
  by (induction s) (auto simp: replaceAll_def)

lemma escapeHtml_has_no_markup_characters:
  "CHR ''<'' \<notin> set (escapeHtml s) \<and> CHR ''>'' \<notin> set (escapeHtml s)
   \<and> CHR 0x22 \<notin> set (escapeHtml s) \<and> CHR 0x27 \<notin> set (escapeHtml s)"
  by (simp add: escapeHtml_def replaceAll_set)

text \<open>
  C10. The values that \<open>getHTMLAttributes\<close> takes from the attribute dictionaries are put
  between the quotes as they are. A table cell whose \<open>Summary\<close> is \<open>"><b>\<close> renders an
  \<open>abbr\<close> attribute that the value closes, followed by a tag from the document string.
\<close>

theorem attribute_value_is_not_escaped:
  "traverseStructure
     (exampleContext
        (KOne (ChildDict None 1
                 [(''S'', PName ''TD''),
                  (''A'', PDict [(''O'', PName ''Table''), (''Summary'', PStr ''\"><b>'')])] KNone))
        None newContentExtractor)
   = ''<td abbr=\"\"><b>\" data-pdf-se-type=\"TD\" id=\"pdf-se-1\"></td>''
   \<and> escapeHtml ''\"><b>'' = ''&quot;&gt;&lt;b&gt;''"
  by code_simp

end
